theory Spec2Isabelle
  imports Complex_Main
begin

section \<open>Data model (shared/schema.ts)\<close>

text \<open>
  Timestamps are milliseconds since the epoch, as \<^verbatim>\<open>Date.getTime()\<close> gives them.
  Row identifiers (\<^verbatim>\<open>uuid\<close>, \<^verbatim>\<open>varchar\<close>) are strings. A nullable column is an
  \<open>option\<close>. The \<^verbatim>\<open>jsonb\<close> column \<^verbatim>\<open>answers\<close> is an object from question
  numbers to option letters, kept as an association list; free-form \<^verbatim>\<open>metadata\<close> is
  an association list of JSON scalars.
\<close>

type_synonym time = int

datatype jsonv = JInt int | JReal real | JString string

type_synonym metadata = "(string \<times> jsonv) list"

type_synonym answers = "(string \<times> string) list"

record User =
  u_id :: string
  u_email :: "string option"
  u_firstName :: "string option"
  u_lastName :: "string option"
  u_role :: string
  u_updatedAt :: "time option"

record HallTicket =
  ht_id :: string
  ht_hallTicketId :: string
  ht_examName :: string
  ht_duration :: int
  ht_totalQuestions :: int
  ht_rollNumber :: string
  ht_studentName :: string
  ht_studentEmail :: string
  ht_isActive :: bool

record ExamSession =
  es_id :: string
  es_hallTicketId :: string
  es_studentId :: string
  es_status :: string
  es_startTime :: "time option"
  es_endTime :: "time option"
  es_currentQuestion :: "int option"
  es_answers :: "answers option"
  es_questionIds :: "string list option"
  es_timeRemaining :: "int option"
  es_updatedAt :: "time option"

record SecurityIncident =
  si_id :: string
  si_sessionId :: string
  si_incidentType :: string
  si_severity :: string
  si_description :: string
  si_metadata :: "metadata option"
  si_isResolved :: bool
  si_createdAt :: "time option"

record Question =
  q_id :: string
  q_examName :: string
  q_questionText :: string
  q_options :: "string list"
  q_correctAnswer :: string
  q_questionType :: string
  q_difficulty :: "string option"
  q_subject :: string
  q_topic :: string
  q_marks :: int
  q_createdAt :: "time option"

text \<open>The database: one list of rows per table, in insertion order.\<close>

record Storage =
  users :: "User list"
  hallTickets :: "HallTicket list"
  examSessions :: "ExamSession list"
  securityIncidents :: "SecurityIncident list"
  questions :: "Question list"

section \<open>Storage operations (class DatabaseStorage)\<close>

definition getUser :: "string \<Rightarrow> Storage \<Rightarrow> User option" where
  "getUser uid db = find (\<lambda>u. u_id u = uid) (users db)"

definition getHallTicketById :: "string \<Rightarrow> Storage \<Rightarrow> HallTicket option" where
  "getHallTicketById hid db = find (\<lambda>t. ht_id t = hid) (hallTickets db)"

definition getExamSession :: "string \<Rightarrow> Storage \<Rightarrow> ExamSession option" where
  "getExamSession sid db = find (\<lambda>s. es_id s = sid) (examSessions db)"

definition getExamSessionByStudent :: "string \<Rightarrow> string \<Rightarrow> Storage \<Rightarrow> ExamSession option" where
  "getExamSessionByStudent studentId hid db =
     find (\<lambda>s. es_studentId s = studentId \<and> es_hallTicketId s = hid) (examSessions db)"

text \<open>
  \<^verbatim>\<open>updateExamSession(id, updates)\<close> is
  \<^verbatim>\<open>UPDATE exam_sessions SET ...updates, updatedAt = new Date() WHERE id = $id\<close>.
  The submit route is its only caller in scope, with the three columns
  \<^verbatim>\<open>answers\<close>, \<^verbatim>\<open>status\<close>, \<^verbatim>\<open>endTime\<close>; a request body without
  \<^verbatim>\<open>answers\<close> gives \<^verbatim>\<open>undefined\<close>, a column the query builder leaves out of the
  \<^verbatim>\<open>SET\<close> clause.
\<close>

record SessionUpdates =
  su_answers :: "answers option"
  su_status :: string
  su_endTime :: time

definition applyUpdates :: "time \<Rightarrow> SessionUpdates \<Rightarrow> ExamSession \<Rightarrow> ExamSession" where
  "applyUpdates now upd s =
     s\<lparr>es_answers := (case su_answers upd of None \<Rightarrow> es_answers s | Some a \<Rightarrow> Some a),
       es_status := su_status upd,
       es_endTime := Some (su_endTime upd),
       es_updatedAt := Some now\<rparr>"

definition updateExamSession :: "time \<Rightarrow> string \<Rightarrow> SessionUpdates \<Rightarrow> Storage \<Rightarrow> Storage" where
  "updateExamSession now sid upd db =
     db\<lparr>examSessions := map (\<lambda>s. if es_id s = sid then applyUpdates now upd s else s) (examSessions db)\<rparr>"

section \<open>HTTP routes (server/routes.ts)\<close>

datatype 'a response =
    Ok 'a
  | Failure nat string "string option"

subsection \<open>POST /api/exam-sessions/:id/submit\<close>

text \<open>
  The handler looks the session up, answers 404 when there is none, and otherwise
  writes the answers of the request, the status \<^verbatim>\<open>submitted\<close> and the current time as
  \<^verbatim>\<open>endTime\<close>, whatever the status of the session was. The updated row is returned.
\<close>

definition submitRoute ::
  "time \<Rightarrow> string \<Rightarrow> answers option \<Rightarrow> Storage \<Rightarrow> ExamSession option response \<times> Storage" where
  "submitRoute now sid ans db =
     (case getExamSession sid db of
        None \<Rightarrow> (Failure 404 ''Exam session not found'' None, db)
      | Some session \<Rightarrow>
          let db' = updateExamSession now sid
                      \<lparr>su_answers = ans, su_status = ''submitted'', su_endTime = now\<rparr> db
          in (Ok (getExamSession sid db'), db'))"

subsection \<open>Queries ordered by creation time\<close>

text \<open>
  \<^verbatim>\<open>ORDER BY created_at DESC\<close>: rows without a timestamp come first (the default of
  PostgreSQL for a descending order), the others newest first.
\<close>

definition orderByDesc :: "('a \<Rightarrow> time option) \<Rightarrow> 'a list \<Rightarrow> 'a list" where
  "orderByDesc key xs =
     filter (\<lambda>x. key x = None) xs
     @ rev (sort_key (\<lambda>x. case key x of None \<Rightarrow> 0 | Some t \<Rightarrow> t) (filter (\<lambda>x. key x \<noteq> None) xs))"

definition getAllQuestions :: "Storage \<Rightarrow> Question list" where
  "getAllQuestions db = orderByDesc q_createdAt (questions db)"

text \<open>
  \<^verbatim>\<open>getSecurityIncidents(sessionId)\<close> with a session id: the incidents of that session,
  newest first.
\<close>

definition getSecurityIncidents :: "string \<Rightarrow> Storage \<Rightarrow> SecurityIncident list" where
  "getSecurityIncidents sid db =
     orderByDesc si_createdAt (filter (\<lambda>i. si_sessionId i = sid) (securityIncidents db))"

text \<open>
  \<^verbatim>\<open>createSecurityIncident\<close> inserts one row. The database gives it a fresh id
  (\<^verbatim>\<open>gen_random_uuid()\<close>, here the argument \<open>newId\<close>) and the creation time
  (\<^verbatim>\<open>defaultNow()\<close>, here the time \<open>now\<close> at which the request is handled; the server
  and its database are taken to share one clock). \<^verbatim>\<open>session_id\<close> references
  \<^verbatim>\<open>exam_sessions.id\<close>: the insert throws when there is no such session, which is
  the result \<open>None\<close>.
\<close>

record InsertSecurityIncident =
  isi_sessionId :: string
  isi_incidentType :: string
  isi_severity :: string
  isi_description :: string
  isi_metadata :: "metadata option"
  isi_isResolved :: "bool option"

definition createSecurityIncident ::
  "time \<Rightarrow> string \<Rightarrow> InsertSecurityIncident \<Rightarrow> Storage \<Rightarrow> (SecurityIncident \<times> Storage) option" where
  "createSecurityIncident now newId incident db =
     (case getExamSession (isi_sessionId incident) db of
        None \<Rightarrow> None
      | Some _ \<Rightarrow>
          let row = \<lparr>si_id = newId,
                     si_sessionId = isi_sessionId incident,
                     si_incidentType = isi_incidentType incident,
                     si_severity = isi_severity incident,
                     si_description = isi_description incident,
                     si_metadata = isi_metadata incident,
                     si_isResolved = (case isi_isResolved incident of None \<Rightarrow> False | Some b \<Rightarrow> b),
                     si_createdAt = Some now\<rparr>
          in Some (row, db\<lparr>securityIncidents := securityIncidents db @ [row]\<rparr>))"

subsection \<open>POST /api/security-incidents\<close>

text \<open>
  The route is behind \<^verbatim>\<open>isAuthenticated\<close> (401 without a valid token). The body is
  validated by \<^verbatim>\<open>insertSecurityIncidentSchema.parse\<close>, a schema generated by a library
  from the table: it is the parameter \<open>parse\<close>, which gives \<open>None\<close> where the schema
  throws. Every exception ends in the \<^verbatim>\<open>catch\<close> block, status 500. There is no
  rate-limit check on this path: the parsed incident is inserted as it is. The incident
  returned is also the one broadcast to the connected admin clients.
\<close>

definition postSecurityIncident ::
  "('b \<Rightarrow> InsertSecurityIncident option) \<Rightarrow> time \<Rightarrow> string \<Rightarrow> bool \<Rightarrow> 'b \<Rightarrow> Storage
     \<Rightarrow> SecurityIncident response \<times> Storage" where
  "postSecurityIncident parse now newId authenticated body db =
     (if \<not> authenticated then (Failure 401 ''Unauthorized'' None, db)
      else case parse body of
        None \<Rightarrow> (Failure 500 ''Failed to create security incident'' None, db)
      | Some data \<Rightarrow>
          (case createSecurityIncident now newId data db of
             None \<Rightarrow> (Failure 500 ''Failed to create security incident'' None, db)
           | Some (incident, db') \<Rightarrow> (Ok incident, db')))"

subsection \<open>WebSocket messages security_violation and face_violation\<close>

text \<open>
  The payload \<^verbatim>\<open>data.data\<close> of a violation message, as the client builds it. A field
  the client leaves \<^verbatim>\<open>undefined\<close> is \<open>None\<close>; the server's test \<^verbatim>\<open>!field\<close> also
  rejects the empty string.
\<close>

record violationData =
  vd_sessionId :: "string option"
  vd_studentId :: "string option"
  vd_studentName :: "string option"
  vd_rollNumber :: "string option"
  vd_incidentType :: "string option"
  vd_severity :: "string option"
  vd_description :: "string option"
  vd_metadata :: "metadata option"

record WebSocketClient =
  ws_userId :: "string option"
  ws_type :: "string option"
  ws_sessionId :: "string option"

definition truthy :: "string option \<Rightarrow> bool" where
  "truthy v = (case v of None \<Rightarrow> False | Some s \<Rightarrow> s \<noteq> [])"

definition str :: "string option \<Rightarrow> string" where
  "str v = (case v of None \<Rightarrow> [] | Some s \<Rightarrow> s)"

text \<open>The filter of the rate-limit gate: same type, created after \<open>now - 60000\<close>.\<close>

definition recentSameType :: "time \<Rightarrow> string \<Rightarrow> SecurityIncident list \<Rightarrow> SecurityIncident list" where
  "recentSameType now incidentType recentIncidents =
     filter (\<lambda>incident. si_incidentType incident = incidentType
               \<and> (case si_createdAt incident of None \<Rightarrow> False | Some t \<Rightarrow> t > now - 60000))
       recentIncidents"

datatype violationOutcome =
    InvalidViolationData
  | UnauthorizedSender
  | SessionNotFound
  | RateLimited
  | InsertFailed
  | IncidentCreated SecurityIncident

text \<open>
  The handler of both message types. Each early \<^verbatim>\<open>return\<close> is an outcome that
  leaves the database as it was; \<open>IncidentCreated\<close> carries the stored incident, which
  is then broadcast to the admin clients.
\<close>

definition handleViolation ::
  "time \<Rightarrow> string \<Rightarrow> WebSocketClient \<Rightarrow> violationData \<Rightarrow> Storage \<Rightarrow> violationOutcome \<times> Storage" where
  "handleViolation now newId ws d db =
     (if \<not> truthy (vd_sessionId d) \<or> \<not> truthy (vd_incidentType d)
         \<or> \<not> truthy (vd_severity d) \<or> \<not> truthy (vd_description d)
      then (InvalidViolationData, db)
      else if ws_type ws \<noteq> Some ''student'' then (UnauthorizedSender, db)
      else case getExamSession (str (vd_sessionId d)) db of
        None \<Rightarrow> (SessionNotFound, db)
      | Some session \<Rightarrow>
          if length (recentSameType now (str (vd_incidentType d))
                       (getSecurityIncidents (str (vd_sessionId d)) db)) \<ge> 3
          then (RateLimited, db)
          else (case createSecurityIncident now newId
                       \<lparr>isi_sessionId = str (vd_sessionId d),
                        isi_incidentType = str (vd_incidentType d),
                        isi_severity = str (vd_severity d),
                        isi_description = str (vd_description d),
                        isi_metadata = Some (case vd_metadata d of None \<Rightarrow> [] | Some m \<Rightarrow> m),
                        isi_isResolved = None\<rparr> db of
                  None \<Rightarrow> (InsertFailed, db)
                | Some (incident, db') \<Rightarrow> (IncidentCreated incident, db')))"

subsection \<open>GET /api/exam-sessions/:id/questions\<close>

text \<open>The object built for each question of the response: these five fields.\<close>

record StudentQuestion =
  sq_id :: string
  sq_questionText :: string
  sq_options :: "string list"
  sq_questionType :: string
  sq_marks :: int

definition studentView :: "Question \<Rightarrow> StudentQuestion" where
  "studentView q =
     \<lparr>sq_id = q_id q, sq_questionText = q_questionText q, sq_options = q_options q,
      sq_questionType = q_questionType q, sq_marks = q_marks q\<rparr>"

definition getSessionQuestionsRoute :: "string \<Rightarrow> Storage \<Rightarrow> StudentQuestion list response" where
  "getSessionQuestionsRoute sid db =
     (case getExamSession sid db of
        None \<Rightarrow> Failure 404 ''Exam session not found'' None
      | Some session \<Rightarrow>
          (case es_questionIds session of
             None \<Rightarrow> Failure 400 ''No questions assigned to this exam session''
                       (Some ''NO_QUESTIONS_ASSIGNED'')
           | Some questionIds \<Rightarrow>
               if questionIds = []
               then Failure 400 ''No questions assigned to this exam session''
                      (Some ''NO_QUESTIONS_ASSIGNED'')
               else Ok (map studentView
                          (filter (\<lambda>q. q_id q \<in> set questionIds) (getAllQuestions db)))))"

subsection \<open>POST /api/exam-sessions\<close>

text \<open>
  \<^verbatim>\<open>upsertUser\<close> inserts the user, or overwrites the row with the same id. The column
  \<^verbatim>\<open>email\<close> is unique: the statement throws (\<open>None\<close>) when another row already has
  the same email.
\<close>

definition emailTaken :: "User \<Rightarrow> Storage \<Rightarrow> bool" where
  "emailTaken userData db =
     (u_email userData \<noteq> None
      \<and> filter (\<lambda>u. u_id u \<noteq> u_id userData \<and> u_email u = u_email userData) (users db) \<noteq> [])"

definition upsertUser :: "time \<Rightarrow> User \<Rightarrow> Storage \<Rightarrow> (User \<times> Storage) option" where
  "upsertUser now userData db =
     (if emailTaken userData db then None
      else let row = userData\<lparr>u_updatedAt := Some now\<rparr> in
        (case getUser (u_id userData) db of
           None \<Rightarrow> Some (row, db\<lparr>users := users db @ [row]\<rparr>)
         | Some _ \<Rightarrow>
             Some (row, db\<lparr>users := map (\<lambda>u. if u_id u = u_id userData then row else u) (users db)\<rparr>)))"

text \<open>
  The data of the new session: the request body with \<^verbatim>\<open>studentId\<close> and
  \<^verbatim>\<open>startTime\<close> set by the route, later with \<^verbatim>\<open>questionIds\<close>.
\<close>

record SessionRequest =
  rq_hallTicketId :: string
  rq_startTime :: "time option"
  rq_status :: "string option"
  rq_currentQuestion :: "int option"
  rq_answers :: "answers option"
  rq_timeRemaining :: "int option"

record InsertExamSession =
  ies_hallTicketId :: string
  ies_studentId :: string
  ies_status :: "string option"
  ies_startTime :: "time option"
  ies_currentQuestion :: "int option"
  ies_answers :: "answers option"
  ies_questionIds :: "string list option"
  ies_timeRemaining :: "int option"

text \<open>
  \<^verbatim>\<open>createExamSession\<close> inserts the row with a fresh id and the defaults of the table.
  The route calls it with a hall ticket and a student that exist, so the foreign keys
  hold.
\<close>

definition createExamSession ::
  "time \<Rightarrow> string \<Rightarrow> InsertExamSession \<Rightarrow> Storage \<Rightarrow> ExamSession \<times> Storage" where
  "createExamSession now newId session db =
     (let row = \<lparr>es_id = newId,
                 es_hallTicketId = ies_hallTicketId session,
                 es_studentId = ies_studentId session,
                 es_status = (case ies_status session of None \<Rightarrow> ''not_started'' | Some st \<Rightarrow> st),
                 es_startTime = ies_startTime session,
                 es_endTime = None,
                 es_currentQuestion = (case ies_currentQuestion session of None \<Rightarrow> Some 1 | Some c \<Rightarrow> Some c),
                 es_answers = (case ies_answers session of None \<Rightarrow> Some [] | Some a \<Rightarrow> Some a),
                 es_questionIds = (case ies_questionIds session of None \<Rightarrow> Some [] | Some q \<Rightarrow> Some q),
                 es_timeRemaining = ies_timeRemaining session,
                 es_updatedAt = Some now\<rparr>
      in (row, db\<lparr>examSessions := examSessions db @ [row]\<rparr>))"

text \<open>
  \<^verbatim>\<open>getRandomQuestions\<close>: the questions of the exam, \<^verbatim>\<open>ORDER BY RANDOM()\<close>, with
  \<^verbatim>\<open>.limit(limit)\<close>. The random value drawn for each row is the parameter \<open>rnd\<close>. The
  query builder puts a \<^verbatim>\<open>LIMIT\<close> clause into the query only for a limit that is not
  negative: with a negative limit all the questions of the exam are returned.
\<close>

definition getRandomQuestions ::
  "(Question \<Rightarrow> nat) \<Rightarrow> string \<Rightarrow> int \<Rightarrow> Storage \<Rightarrow> Question list" where
  "getRandomQuestions rnd examName limit db =
     (let rows = sort_key rnd (filter (\<lambda>q. q_examName q = examName) (questions db))
      in if limit < 0 then rows else take (nat limit) rows)"

text \<open>\<^verbatim>\<open>xs.slice(0, e)\<close>: a negative end counts from the end of the array.\<close>

definition slice0 :: "int \<Rightarrow> 'a list \<Rightarrow> 'a list" where
  "slice0 e xs = (if e < 0 then take (nat (int (length xs) + e)) xs else take (nat e) xs)"

definition studentIdOf :: "HallTicket \<Rightarrow> string" where
  "studentIdOf hallTicket = ''student_'' @ ht_rollNumber hallTicket"

text \<open>
  The user record of a student: first name up to the first space of the name on the
  hall ticket, last name the rest.
\<close>

definition studentUserOf :: "HallTicket \<Rightarrow> User" where
  "studentUserOf hallTicket =
     \<lparr>u_id = studentIdOf hallTicket,
      u_email = Some (ht_studentEmail hallTicket),
      u_firstName = Some (takeWhile (\<lambda>c. c \<noteq> CHR '' '') (ht_studentName hallTicket)),
      u_lastName = Some (drop 1 (dropWhile (\<lambda>c. c \<noteq> CHR '' '') (ht_studentName hallTicket))),
      u_role = ''student'',
      u_updatedAt = None\<rparr>"

definition sessionDataOf :: "time \<Rightarrow> string \<Rightarrow> SessionRequest \<Rightarrow> InsertExamSession" where
  "sessionDataOf now studentId body =
     \<lparr>ies_hallTicketId = rq_hallTicketId body,
      ies_studentId = studentId,
      ies_status = rq_status body,
      ies_startTime = Some (case rq_startTime body of None \<Rightarrow> now | Some t \<Rightarrow> t),
      ies_currentQuestion = rq_currentQuestion body,
      ies_answers = rq_answers body,
      ies_questionIds = None,
      ies_timeRemaining = rq_timeRemaining body\<rparr>"

definition noQuestionsMessage :: string where
  "noQuestionsMessage =
     ''No questions available in the system. Please contact the administrator to add questions.''"

text \<open>
  The route. Its steps, in the order of the source: the hall ticket must exist and be
  active (400 otherwise); the student's user record is fetched, and created when there
  is none; the data is validated by \<^verbatim>\<open>insertExamSessionSchema.parse\<close> (a schema
  generated by a library, here the parameter \<open>valid\<close>); an existing session of the
  student for the hall ticket is returned as it is; the questions are drawn, with the
  fallback to the whole bank (shuffled by \<^verbatim>\<open>sort(() => 0.5 - Math.random())\<close>, here the
  parameter \<open>shuffle\<close>), and the request fails with \<^verbatim>\<open>NO_QUESTIONS_IN_SYSTEM\<close> when
  the bank is empty; the session is created. Every exception ends in the \<^verbatim>\<open>catch\<close>
  block, status 500; what was written before it stays written.
\<close>

definition createSessionRoute ::
  "(InsertExamSession \<Rightarrow> bool) \<Rightarrow> (Question \<Rightarrow> nat) \<Rightarrow> (Question list \<Rightarrow> Question list)
     \<Rightarrow> time \<Rightarrow> string \<Rightarrow> SessionRequest \<Rightarrow> Storage \<Rightarrow> ExamSession response \<times> Storage" where
  "createSessionRoute valid rnd shuffle now newId body db =
     (case getHallTicketById (rq_hallTicketId body) db of
        None \<Rightarrow> (Failure 400 ''Invalid or inactive hall ticket'' None, db)
      | Some hallTicket \<Rightarrow>
          if \<not> ht_isActive hallTicket
          then (Failure 400 ''Invalid or inactive hall ticket'' None, db)
          else
            let studentId = studentIdOf hallTicket in
            (case (case getUser studentId db of
                     Some studentUser \<Rightarrow> Some db
                   | None \<Rightarrow> map_option snd (upsertUser now (studentUserOf hallTicket) db)) of
               None \<Rightarrow> (Failure 500 ''Failed to create exam session'' None, db)
             | Some db1 \<Rightarrow>
                 let data = sessionDataOf now studentId body in
                 if \<not> valid data
                 then (Failure 500 ''Failed to create exam session'' None, db1)
                 else
                   (case getExamSessionByStudent studentId (ies_hallTicketId data) db1 of
                      Some existingSession \<Rightarrow> (Ok existingSession, db1)
                    | None \<Rightarrow>
                        (let examQuestions = getRandomQuestions rnd (ht_examName hallTicket)
                                               (ht_totalQuestions hallTicket) db1
                         in if examQuestions = []
                            then
                              (let allQuestions = getAllQuestions db1 in
                               if allQuestions = []
                               then (Failure 400 noQuestionsMessage (Some ''NO_QUESTIONS_IN_SYSTEM''), db1)
                               else
                                 let shuffled = shuffle allQuestions;
                                     limit = min (if ht_totalQuestions hallTicket = 0 then 20
                                                  else ht_totalQuestions hallTicket)
                                                 (int (length allQuestions));
                                     fallback = slice0 limit shuffled;
                                     (examSession, db2) =
                                       createExamSession now newId
                                         (data\<lparr>ies_questionIds := Some (map q_id fallback)\<rparr>) db1
                                 in (Ok examSession, db2))
                            else
                              (let (examSession, db2) =
                                     createExamSession now newId
                                       (data\<lparr>ies_questionIds := Some (map q_id examQuestions)\<rparr>) db1
                               in (Ok examSession, db2))))))"

section \<open>The exam page (client/src/pages/student/exam-complete.tsx, component ExamMode)\<close>

text \<open>
  The component is modelled as a reducer: its React state is a record, every handler
  is a function from the state before to the state after, and what a handler does to
  the outside (a WebSocket message, an HTTP request, a toast, a timer it arms) is
  appended to the trace \<open>effects\<close> of the state, in the order of the source. A state
  variable that a handler reads is read from the state before the handler runs.
\<close>

record faceSample =
  faceDetected :: bool
  multipleFaces :: bool
  lookingAway :: bool
  confidence :: real

record HallTicketData =
  hd_studentName :: string
  hd_rollNumber :: string

record policyData =
  pd_sessionId :: string
  pd_studentId :: "string option"
  pd_studentName :: "string option"
  pd_rollNumber :: "string option"
  pd_action :: string
  pd_violationType :: string
  pd_violationCount :: nat
  pd_timestamp :: time

record statusData =
  sd_sessionId :: string
  sd_studentId :: string
  sd_timestamp :: time
  sd_sample :: faceSample
  sd_violationCount :: nat
  sd_lookAwayCount :: nat

text \<open>
  A WebSocket message: its \<^verbatim>\<open>type\<close> and its payload. \<^verbatim>\<open>security_violation\<close> and
  \<^verbatim>\<open>face_violation\<close> carry the payload the server turns into an incident;
  \<^verbatim>\<open>student_status\<close> is sent with two shapes of payload.
\<close>

datatype wsMessage =
    ViolationMessage string violationData
  | PolicyUpdate policyData
  | StudentStatusWarning policyData
  | StudentStatus statusData

datatype timerAction = HideWarning | AutoSubmit | ReenterFullscreen

datatype effect =
    SendMessage wsMessage
  | SetTimeout timerAction nat
  | Toast string
  | PostSecurityIncident InsertSecurityIncident
  | PostSubmit string answers
  | RequestFullscreen

record ExamMode =
  examSession :: "ExamSession option"
  hallTicketData :: "HallTicketData option"
  userId :: "string option"
  questionsLoaded :: bool
  cameraActive :: bool
  currentQuestion :: nat
  answers :: answers
  timeRemaining :: int
  isFullscreen :: bool
  showWarning :: bool
  warningCount :: nat
  violationCount :: nat
  isPaused :: bool
  warningMessage :: string
  lookAwayCount :: nat
  multipleFaceCount :: nat
  lastSnapshotTime :: time
  effects :: "effect list"

definition emit :: "effect list \<Rightarrow> ExamMode \<Rightarrow> ExamMode" where
  "emit es s = s\<lparr>effects := effects s @ es\<rparr>"

text \<open>Decimal digits of a number, for the template strings of the source.\<close>

fun showNat :: "nat \<Rightarrow> string" where
  "showNat n =
     (if n < 10 then [''0123456789'' ! n]
      else showNat (n div 10) @ [''0123456789'' ! (n mod 10)])"

declare showNat.simps [simp del]

subsection \<open>The session arrives\<close>

text \<open>
  The page asks for its session once, when it is mounted; the success handler of that
  request (\<^verbatim>\<open>createSessionMutation.onSuccess\<close>) stores the session, sets
  \<^verbatim>\<open>timeRemaining\<close> to the time budget of the session and requests fullscreen. It is
  the only place besides the countdown that sets \<^verbatim>\<open>timeRemaining\<close>. A session
  without a budget (\<^verbatim>\<open>null\<close>) leaves the page with a value that is never
  \<^verbatim>\<open>> 0\<close>, here 0.
\<close>

definition onSessionCreated :: "ExamSession \<Rightarrow> ExamMode \<Rightarrow> ExamMode" where
  "onSessionCreated session s =
     emit [RequestFullscreen]
       (s\<lparr>examSession := Some session,
          timeRemaining := (case es_timeRemaining session of None \<Rightarrow> 0 | Some t \<Rightarrow> t)\<rparr>)"

subsection \<open>submitExam and resumeExam\<close>

text \<open>
  \<^verbatim>\<open>submitExam\<close> runs the submit mutation: it posts the current answers to
  \<^verbatim>\<open>/api/exam-sessions/:id/submit\<close>; without a session the mutation throws and its
  error handler shows a toast.
\<close>

definition submitExam :: "ExamMode \<Rightarrow> ExamMode" where
  "submitExam s =
     (case examSession s of
        None \<Rightarrow> emit [Toast ''Submission Failed''] s
      | Some session \<Rightarrow> emit [PostSubmit (es_id session) (answers s)] s)"

definition resumeExam :: "ExamMode \<Rightarrow> ExamMode" where
  "resumeExam s =
     emit ((if isFullscreen s then [] else [RequestFullscreen]) @ [Toast ''Exam Resumed''])
       (s\<lparr>isPaused := False\<rparr>)"

subsection \<open>handleSecurityViolation\<close>

text \<open>The warning texts (the warning sign that starts each of them is left out).\<close>

definition violationWarning :: "string \<Rightarrow> string" where
  "violationWarning violationType =
     (if violationType = ''fullscreen_exit'' then ''Please stay in fullscreen mode during the exam!''
      else if violationType = ''tab_switch'' then ''Switching tabs is not allowed during the exam!''
      else if violationType = ''window_blur'' then ''Please keep the exam window focused!''
      else if violationType = ''key_violation'' then ''Restricted key combination detected!''
      else [])"

definition policyMessage :: "time \<Rightarrow> ExamSession \<Rightarrow> ExamMode \<Rightarrow> string \<Rightarrow> string \<Rightarrow> nat \<Rightarrow> policyData" where
  "policyMessage now session s action violationType newViolationCount =
     \<lparr>pd_sessionId = es_id session,
      pd_studentId = userId s,
      pd_studentName = map_option hd_studentName (hallTicketData s),
      pd_rollNumber = map_option hd_rollNumber (hallTicketData s),
      pd_action = action,
      pd_violationType = violationType,
      pd_violationCount = newViolationCount,
      pd_timestamp = now\<rparr>"

definition handleSecurityViolation ::
  "time \<Rightarrow> string \<Rightarrow> string \<Rightarrow> string \<Rightarrow> ExamMode \<Rightarrow> ExamMode" where
  "handleSecurityViolation now violationType description severity s =
     (case examSession s of
        None \<Rightarrow> s
      | Some session \<Rightarrow>
          let newViolationCount = violationCount s + 1;
              s1 = s\<lparr>violationCount := newViolationCount,
                     warningCount := warningCount s + 1,
                     warningMessage := violationWarning violationType,
                     showWarning := True\<rparr>;
              s2 = emit [SetTimeout HideWarning 5000,
                         SendMessage (ViolationMessage ''security_violation''
                           \<lparr>vd_sessionId = Some (es_id session),
                            vd_studentId = userId s,
                            vd_studentName = map_option hd_studentName (hallTicketData s),
                            vd_rollNumber = map_option hd_rollNumber (hallTicketData s),
                            vd_incidentType = Some violationType,
                            vd_severity = Some severity,
                            vd_description = Some description,
                            vd_metadata = Some [(''violationCount'', JInt (int newViolationCount)),
                                                (''warningCount'', JInt (int (warningCount s + 1))),
                                                (''timestamp'', JInt now)]\<rparr>)] s1
          in if newViolationCount = 1
             then emit [Toast ''Exam Paused'',
                        SendMessage (PolicyUpdate
                          (policyMessage now session s ''paused'' violationType newViolationCount))]
                    (s2\<lparr>isPaused := True\<rparr>)
             else if newViolationCount \<ge> 3
             then emit [Toast ''Exam Auto-Submitted'',
                        SendMessage (PolicyUpdate
                          (policyMessage now session s ''auto_submitted'' violationType newViolationCount)),
                        SetTimeout AutoSubmit 2000] s2
             else emit [SendMessage (StudentStatusWarning
                          (policyMessage now session s ''warning'' violationType newViolationCount))] s2)"

subsection \<open>Browser events\<close>

text \<open>
  The listeners registered while a session exists: \<^verbatim>\<open>fullscreenchange\<close> (with the
  new value of \<^verbatim>\<open>!!document.fullscreenElement\<close>), \<^verbatim>\<open>visibilitychange\<close> (with
  \<^verbatim>\<open>document.hidden\<close>), \<^verbatim>\<open>blur\<close>, and the three keyboard events.
\<close>

record keyEvent =
  ke_key :: string
  ke_keyCode :: nat
  ke_ctrlKey :: bool
  ke_altKey :: bool
  ke_shiftKey :: bool

datatype browserEvent =
    FullscreenChange bool
  | VisibilityChange bool
  | WindowBlur
  | KeyDown keyEvent
  | KeyUp keyEvent
  | KeyPress keyEvent

definition isEscape :: "keyEvent \<Rightarrow> bool" where
  "isEscape ev = (ke_key ev = ''Escape'' \<or> ke_keyCode ev = 27)"

definition blockedKeys :: "string list" where
  "blockedKeys = [''F11'', ''Alt+Tab'', ''Ctrl+Shift+I'', ''F12'', ''Ctrl+U'', ''Ctrl+Shift+C'',
                  ''Ctrl+Shift+J'', ''Ctrl+R'', ''F5'', ''Ctrl+N'', ''Ctrl+T'', ''Ctrl+W'']"

fun joinPlus :: "string list \<Rightarrow> string" where
  "joinPlus [] = []"
| "joinPlus [x] = x"
| "joinPlus (x # y # ys) = x @ ''+'' @ joinPlus (y # ys)"

definition combo :: "keyEvent \<Rightarrow> string" where
  "combo ev =
     joinPlus (filter (\<lambda>part. part \<noteq> [])
       [if ke_ctrlKey ev then ''Ctrl'' else [],
        if ke_altKey ev then ''Alt'' else [],
        if ke_shiftKey ev then ''Shift'' else [],
        ke_key ev])"

text \<open>
  The violation a browser event stands for, if any: type, description, severity. Every
  call site passes the severity \<^verbatim>\<open>medium\<close>.
\<close>

definition violationOf :: "browserEvent \<Rightarrow> (string \<times> string \<times> string) option" where
  "violationOf ev =
     (case ev of
        FullscreenChange isNowFullscreen \<Rightarrow>
          if isNowFullscreen then None
          else Some (''fullscreen_exit'', ''Student exited fullscreen mode'', ''medium'')
      | VisibilityChange hidden \<Rightarrow>
          if hidden
          then Some (''tab_switch'', ''Student switched tabs or minimized window'', ''medium'')
          else None
      | WindowBlur \<Rightarrow> Some (''window_blur'', ''Student left the exam window'', ''medium'')
      | KeyDown k \<Rightarrow>
          if isEscape k
          then Some (''key_violation'', ''Student attempted to use ESC key'', ''medium'')
          else if combo k \<in> set blockedKeys \<or> ke_key k \<in> set blockedKeys
          then Some (''key_violation'', ''Student attempted to use blocked key: '' @ combo k, ''medium'')
          else None
      | KeyUp k \<Rightarrow>
          if isEscape k
          then Some (''key_violation'', ''Student attempted to use ESC key'', ''medium'')
          else None
      | KeyPress k \<Rightarrow>
          if isEscape k
          then Some (''key_violation'', ''Student attempted to use ESC key'', ''medium'')
          else None)"

definition handleBrowserEvent :: "time \<Rightarrow> browserEvent \<Rightarrow> ExamMode \<Rightarrow> ExamMode" where
  "handleBrowserEvent now ev s =
     (case examSession s of
        None \<Rightarrow> s
      | Some session \<Rightarrow>
          let s0 = (case ev of FullscreenChange isNowFullscreen \<Rightarrow> s\<lparr>isFullscreen := isNowFullscreen\<rparr>
                             | _ \<Rightarrow> s)
          in (case violationOf ev of
                None \<Rightarrow> s0
              | Some (violationType, description, severity) \<Rightarrow>
                  let s1 = handleSecurityViolation now violationType description severity s0
                  in (case ev of FullscreenChange _ \<Rightarrow> emit [SetTimeout ReenterFullscreen 1000] s1
                               | _ \<Rightarrow> s1)))"

subsection \<open>The countdown\<close>

text \<open>
  The interval is armed while \<^verbatim>\<open>timeRemaining > 0\<close>, a session exists and the
  questions are loaded; \<^verbatim>\<open>isPaused\<close> is not among its conditions. One firing of the
  interval is \<open>timerTick\<close>.
\<close>

definition timerTick :: "ExamMode \<Rightarrow> ExamMode" where
  "timerTick s =
     (if timeRemaining s > 0 \<and> examSession s \<noteq> None \<and> questionsLoaded s
      then (if timeRemaining s \<le> 1
            then (submitExam s)\<lparr>timeRemaining := 0\<rparr>
            else s\<lparr>timeRemaining := timeRemaining s - 1\<rparr>)
      else s)"

subsection \<open>Face monitoring\<close>

text \<open>
  \<^verbatim>\<open>handleFaceViolation\<close> sends the violation to the server as a \<^verbatim>\<open>face_violation\<close>
  message.
\<close>

definition handleFaceViolation ::
  "time \<Rightarrow> ExamSession \<Rightarrow> faceSample \<Rightarrow> string \<Rightarrow> string \<Rightarrow> string \<Rightarrow> ExamMode \<Rightarrow> ExamMode" where
  "handleFaceViolation now session f violationType description severity s =
     emit [SendMessage (ViolationMessage ''face_violation''
             \<lparr>vd_sessionId = Some (es_id session),
              vd_studentId = Some (es_studentId session),
              vd_studentName = map_option hd_studentName (hallTicketData s),
              vd_rollNumber = map_option hd_rollNumber (hallTicketData s),
              vd_incidentType = Some violationType,
              vd_severity = Some severity,
              vd_description = Some description,
              vd_metadata = Some [(''confidence'', JReal (confidence f)),
                                  (''timestamp'', JInt now)]\<rparr>)] s"

text \<open>
  \<^verbatim>\<open>handleMonitoring\<close>, run on the face sample that is current when the monitoring
  effect runs: first the chain multiple faces / looking away / neither (here
  \<open>classifySample\<close>), then the status update (at most one every 10 seconds, and only
  with a face detected). The status update reports the counters as they were before
  the run.
\<close>

definition classifySample :: "time \<Rightarrow> ExamSession \<Rightarrow> faceSample \<Rightarrow> ExamMode \<Rightarrow> ExamMode" where
  "classifySample now session f s =
     (if multipleFaces f then
        let newCount = multipleFaceCount s + 1;
            s1 = handleFaceViolation now session f ''multiple_faces''
                   (''Multiple faces detected (occurrence '' @ showNat newCount @ '')'')
                   ''critical'' (s\<lparr>multipleFaceCount := newCount\<rparr>)
        in s1\<lparr>showWarning := True,
               warningMessage := ''Multiple faces detected! Only the exam taker should be visible.''\<rparr>
      else if lookingAway f then
        let newCount = lookAwayCount s + 1;
            s1 = s\<lparr>lookAwayCount := newCount\<rparr>
        in if newCount = 1
           then s1\<lparr>showWarning := True,
                    warningMessage := ''Please look at the camera during the exam.''\<rparr>
           else if newCount = 3
           then (handleFaceViolation now session f ''looking_away_repeated''
                   (''Student repeatedly looking away ('' @ showNat newCount @ '' times)'')
                   ''high'' s1)
                  \<lparr>showWarning := True,
                   warningMessage :=
                     ''FINAL WARNING: Keep your eyes on the screen. Admin has been notified.''\<rparr>
           else if newCount > 3
           then emit [PostSecurityIncident
                        \<lparr>isi_sessionId = es_id session,
                         isi_incidentType = ''looking_away'',
                         isi_severity = ''medium'',
                         isi_description =
                           ''Student looking away (occurrence '' @ showNat newCount @ '')'',
                         isi_metadata = Some [(''confidence'', JReal (confidence f)),
                                              (''count'', JInt (int newCount))],
                         isi_isResolved = None\<rparr>] s1
           else s1
      else if faceDetected f \<and> lookAwayCount s > 0 then s\<lparr>lookAwayCount := 0\<rparr>
      else s)"

definition handleMonitoring :: "time \<Rightarrow> ExamSession \<Rightarrow> faceSample \<Rightarrow> ExamMode \<Rightarrow> ExamMode" where
  "handleMonitoring now session f s =
     (let s1 = classifySample now session f s
      in if faceDetected f \<and> now - lastSnapshotTime s > 10000
         then emit [SendMessage (StudentStatus
                      \<lparr>sd_sessionId = es_id session,
                       sd_studentId = es_studentId session,
                       sd_timestamp = now,
                       sd_sample = f,
                       sd_violationCount = violationCount s,
                       sd_lookAwayCount = lookAwayCount s\<rparr>)]
                (s1\<lparr>lastSnapshotTime := now\<rparr>)
         else s1)"

text \<open>
  The effect around it does nothing without a session or without an active camera.
  One run of the effect, on the sample \<open>f\<close> the detector holds at that moment, is
  \<open>faceMonitoring\<close>.
\<close>

definition faceMonitoring :: "time \<Rightarrow> faceSample \<Rightarrow> ExamMode \<Rightarrow> ExamMode" where
  "faceMonitoring now f s =
     (case examSession s of
        None \<Rightarrow> s
      | Some session \<Rightarrow> if \<not> cameraActive s then s else handleMonitoring now session f s)"

text \<open>
  The effect is not run once per sample. Its dependency list holds the four fields of
  the sample and, from the state of the page, \<^verbatim>\<open>examSession\<close>, \<^verbatim>\<open>cameraActive\<close>,
  \<^verbatim>\<open>lookAwayCount\<close>, \<^verbatim>\<open>multipleFaceCount\<close> and \<^verbatim>\<open>lastSnapshotTime\<close>: React runs
  it again after every render in which one of them differs from the run before. The
  last three are set by the effect itself, so a run that changes one of them is
  followed by another run on the same sample.
\<close>

definition monitorDeps :: "ExamMode \<Rightarrow> ExamSession option \<times> bool \<times> nat \<times> nat \<times> time" where
  "monitorDeps s =
     (examSession s, cameraActive s, lookAwayCount s, multipleFaceCount s, lastSnapshotTime s)"

text \<open>
  What the page does while the detector holds one sample \<open>f\<close> (for about a second),
  a sample that differs from the one before: the effect runs for the new sample, and
  again at every later render of that second, as long as the run before changed a
  dependency. The list holds the times of these
  renders; how many there are is up to the browser.
\<close>

fun holdSample :: "time list \<Rightarrow> faceSample \<Rightarrow> ExamMode \<Rightarrow> ExamMode" where
  "holdSample [] f s = s"
| "holdSample (now # later) f s =
     (let s' = faceMonitoring now f s
      in if monitorDeps s' = monitorDeps s then s' else holdSample later f s')"

subsection \<open>Events of a session\<close>

text \<open>
  What can happen to the page during an exam, each with the time at which it happens:
  the session arriving, the questions query settling (with questions or without), the
  camera going on or off, a browser event, one run of the monitoring effect on the face
  sample held at that time, a firing of the countdown interval, the student pressing
  Resume or Submit, a timer armed earlier running out. Left out are the handlers that
  set nothing but \<^verbatim>\<open>answers\<close>, \<^verbatim>\<open>currentQuestion\<close> or \<^verbatim>\<open>showWarning\<close>: selecting
  an answer, moving between questions, dismissing a warning.
\<close>

datatype event =
    SessionCreated ExamSession
  | QuestionsSettled bool
  | Camera bool
  | Browser browserEvent
  | Face faceSample
  | Tick
  | Resume
  | Submit
  | Timeout timerAction

definition fireTimeout :: "timerAction \<Rightarrow> ExamMode \<Rightarrow> ExamMode" where
  "fireTimeout a s =
     (case a of
        HideWarning \<Rightarrow> s\<lparr>showWarning := False, warningMessage := []\<rparr>
      | AutoSubmit \<Rightarrow> submitExam s
      | ReenterFullscreen \<Rightarrow>
          if \<not> isFullscreen s \<and> examSession s \<noteq> None then emit [RequestFullscreen] s else s)"

definition step :: "time \<times> event \<Rightarrow> ExamMode \<Rightarrow> ExamMode" where
  "step te s =
     (case snd te of
        SessionCreated session \<Rightarrow> onSessionCreated session s
      | QuestionsSettled loaded \<Rightarrow> s\<lparr>questionsLoaded := loaded\<rparr>
      | Camera active \<Rightarrow> s\<lparr>cameraActive := active\<rparr>
      | Browser ev \<Rightarrow> handleBrowserEvent (fst te) ev s
      | Face f \<Rightarrow> faceMonitoring (fst te) f s
      | Tick \<Rightarrow> timerTick s
      | Resume \<Rightarrow> resumeExam s
      | Submit \<Rightarrow> submitExam s
      | Timeout a \<Rightarrow> fireTimeout a s)"

definition run :: "(time \<times> event) list \<Rightarrow> ExamMode \<Rightarrow> ExamMode" where
  "run tes s = fold step tes s"

text \<open>What a state says about submission, pausing and incidents.\<close>

definition isSubmit :: "effect \<Rightarrow> bool" where
  "isSubmit e = (case e of PostSubmit _ _ \<Rightarrow> True | _ \<Rightarrow> False)"

definition submissions :: "ExamMode \<Rightarrow> nat" where
  "submissions s = length (filter isSubmit (effects s))"

definition isPolicyEffect :: "effect \<Rightarrow> bool" where
  "isPolicyEffect e =
     (case e of
        PostSubmit _ _ \<Rightarrow> True
      | SetTimeout a _ \<Rightarrow> a = AutoSubmit
      | SendMessage (PolicyUpdate _) \<Rightarrow> True
      | _ \<Rightarrow> False)"

text \<open>
  The violation events among the effects: the payloads sent as violation messages and
  the incidents posted over HTTP, each as type and severity.
\<close>

fun violationEvents :: "effect list \<Rightarrow> (string \<times> string) list" where
  "violationEvents [] = []"
| "violationEvents (SendMessage (ViolationMessage _ d) # es) =
     (str (vd_incidentType d), str (vd_severity d)) # violationEvents es"
| "violationEvents (PostSecurityIncident i # es) =
     (isi_incidentType i, isi_severity i) # violationEvents es"
| "violationEvents (_ # es) = violationEvents es"

definition isSessionCreated :: "event \<Rightarrow> bool" where
  "isSessionCreated e = (case e of SessionCreated _ \<Rightarrow> True | _ \<Rightarrow> False)"

definition isBrowserViolation :: "event \<Rightarrow> bool" where
  "isBrowserViolation e = (case e of Browser ev \<Rightarrow> violationOf ev \<noteq> None | _ \<Rightarrow> False)"

definition newEffects :: "ExamMode \<Rightarrow> ExamMode \<Rightarrow> effect list" where
  "newEffects s s' = drop (length (effects s)) (effects s')"

section \<open>The bound of the rate limit\<close>

text \<open>
  The bound of the rate limit, as a property of a database at a time \<open>now\<close>: every
  incident has a creation time that is not in the future, and for every time \<open>t\<close>,
  session and type, at most three incidents of that session and type were created in
  the 60 seconds up to \<open>t\<close>.
\<close>

definition windowCount :: "time \<Rightarrow> string \<Rightarrow> string \<Rightarrow> Storage \<Rightarrow> nat" where
  "windowCount t sid ty db =
     length (filter (\<lambda>i. si_sessionId i = sid \<and> si_incidentType i = ty
                        \<and> (case si_createdAt i of None \<Rightarrow> False | Some c \<Rightarrow> t - 60000 < c \<and> c \<le> t))
               (securityIncidents db))"

definition rateBounded :: "time \<Rightarrow> Storage \<Rightarrow> bool" where
  "rateBounded now db =
     ((\<forall>i \<in> set (securityIncidents db). \<exists>c. si_createdAt i = Some c \<and> c \<le> now)
      \<and> (\<forall>t sid ty. windowCount t sid ty db \<le> 3))"

section \<open>Example inputs\<close>

definition finishedSession :: ExamSession where
  "finishedSession =
     \<lparr>es_id = ''s1'', es_hallTicketId = ''h1'', es_studentId = ''student_42'',
      es_status = ''submitted'', es_startTime = Some 0, es_endTime = Some 5000,
      es_currentQuestion = Some 2, es_answers = Some [(''1'', ''B''), (''2'', ''C'')],
      es_questionIds = Some [''q1'', ''q2''], es_timeRemaining = Some 10,
      es_updatedAt = Some 5000\<rparr>"

definition finishedDb :: Storage where
  "finishedDb = \<lparr>users = [], hallTickets = [], examSessions = [finishedSession],
                 securityIncidents = [], questions = []\<rparr>"

definition liveSession :: ExamSession where
  "liveSession =
     \<lparr>es_id = ''s1'', es_hallTicketId = ''h1'', es_studentId = ''student_42'',
      es_status = ''in_progress'', es_startTime = Some 0, es_endTime = None,
      es_currentQuestion = Some 1, es_answers = Some [],
      es_questionIds = Some [''q1'', ''q2''], es_timeRemaining = Some 3600,
      es_updatedAt = Some 0\<rparr>"

definition lookAwayAt :: "string \<Rightarrow> time \<Rightarrow> SecurityIncident" where
  "lookAwayAt i t =
     \<lparr>si_id = i, si_sessionId = ''s1'', si_incidentType = ''looking_away'',
      si_severity = ''medium'', si_description = ''Student looking away'',
      si_metadata = None, si_isResolved = False, si_createdAt = Some t\<rparr>"

definition noisyDb :: Storage where
  "noisyDb = \<lparr>users = [], hallTickets = [], examSessions = [liveSession],
              securityIncidents = [lookAwayAt ''i1'' 1000, lookAwayAt ''i2'' 2000, lookAwayAt ''i3'' 3000],
              questions = []\<rparr>"

definition lookAwayMessage :: violationData where
  "lookAwayMessage =
     \<lparr>vd_sessionId = Some ''s1'', vd_studentId = Some ''student_42'',
      vd_studentName = Some ''Ada Lovelace'', vd_rollNumber = Some ''42'',
      vd_incidentType = Some ''looking_away'', vd_severity = Some ''medium'',
      vd_description = Some ''Student looking away'', vd_metadata = None\<rparr>"

definition lookAwayBody :: InsertSecurityIncident where
  "lookAwayBody =
     \<lparr>isi_sessionId = ''s1'', isi_incidentType = ''looking_away'', isi_severity = ''medium'',
      isi_description = ''Student looking away'', isi_metadata = None, isi_isResolved = None\<rparr>"

definition studentSocket :: WebSocketClient where
  "studentSocket =
     \<lparr>ws_userId = Some ''student_42'', ws_type = Some ''student'', ws_sessionId = Some ''s1''\<rparr>"

text \<open>A question bank with its answers erased, to compare two banks up to the answers.\<close>

definition eraseAnswer :: "Question \<Rightarrow> Question" where
  "eraseAnswer q = q\<lparr>q_correctAnswer := []\<rparr>"

definition sampleQuestion :: "string \<Rightarrow> string \<Rightarrow> time \<Rightarrow> Question" where
  "sampleQuestion i answer t =
     \<lparr>q_id = i, q_examName = ''Algebra'', q_questionText = ''2 + 2 = ?'',
      q_options = [''3'', ''4'', ''5'', ''6''], q_correctAnswer = answer,
      q_questionType = ''multiple_choice'', q_difficulty = Some ''medium'',
      q_subject = ''Mathematics'', q_topic = ''Arithmetic'', q_marks = 1,
      q_createdAt = Some t\<rparr>"

definition bankDb :: "string \<Rightarrow> string \<Rightarrow> Storage" where
  "bankDb a1 a2 =
     \<lparr>users = [], hallTickets = [], examSessions = [liveSession], securityIncidents = [],
      questions = [sampleQuestion ''q1'' a1 10, sampleQuestion ''q2'' a2 20,
                   sampleQuestion ''q3'' a1 30]\<rparr>"

definition emptyBankTicket :: HallTicket where
  "emptyBankTicket =
     \<lparr>ht_id = ''h1'', ht_hallTicketId = ''HT-001'', ht_examName = ''Algebra'',
      ht_duration = 60, ht_totalQuestions = 2, ht_rollNumber = ''42'',
      ht_studentName = ''Ada Lovelace'', ht_studentEmail = ''ada@example.org'',
      ht_isActive = True\<rparr>"

definition emptyBankDb :: Storage where
  "emptyBankDb = \<lparr>users = [], hallTickets = [emptyBankTicket], examSessions = [],
                  securityIncidents = [], questions = []\<rparr>"

definition startRequest :: SessionRequest where
  "startRequest =
     \<lparr>rq_hallTicketId = ''h1'', rq_startTime = Some 100, rq_status = Some ''in_progress'',
      rq_currentQuestion = Some 1, rq_answers = Some [], rq_timeRemaining = Some 3600\<rparr>"

definition examState :: ExamMode where
  "examState =
     \<lparr>examSession = Some liveSession,
      hallTicketData = Some \<lparr>hd_studentName = ''Ada Lovelace'', hd_rollNumber = ''42''\<rparr>,
      userId = None,
      questionsLoaded = True,
      cameraActive = True,
      currentQuestion = 1,
      answers = [],
      timeRemaining = 3600,
      isFullscreen = True,
      showWarning = False,
      warningCount = 0,
      violationCount = 0,
      isPaused = False,
      warningMessage = [],
      lookAwayCount = 0,
      multipleFaceCount = 0,
      lastSnapshotTime = 0,
      effects = []\<rparr>"

definition away :: faceSample where
  "away = \<lparr>faceDetected = True, multipleFaces = False, lookingAway = True, confidence = 0.8\<rparr>"

definition attentive :: faceSample where
  "attentive = \<lparr>faceDetected = True, multipleFaces = False, lookingAway = False, confidence = 0.9\<rparr>"

definition crowded :: faceSample where
  "crowded = \<lparr>faceDetected = True, multipleFaces = True, lookingAway = False, confidence = 0.9\<rparr>"

section \<open>Properties of the submit route\<close>

lemma find_map_update:
  "find (\<lambda>s. es_id s = sid) (map (\<lambda>s. if es_id s = sid then applyUpdates now upd s else s) xs)
     = map_option (applyUpdates now upd) (find (\<lambda>s. es_id s = sid) xs)"
  by (induction xs) (auto simp: applyUpdates_def)

lemma getExamSession_update:
  "getExamSession sid (updateExamSession now sid upd db)
     = map_option (applyUpdates now upd) (getExamSession sid db)"
  by (simp add: getExamSession_def updateExamSession_def find_map_update)

text \<open>
  C3, as stated, fails: a second submission of a session that is already
  \<^verbatim>\<open>submitted\<close> is not a no-op. The session \<open>s1\<close> was submitted at time 5000 with
  answers \<open>{1: B, 2: C}\<close>. A second submit at time 9000 with the very same answers moves
  \<^verbatim>\<open>endTime\<close> to 9000, and a second submit with other answers replaces the stored
  answer set.
\<close>

theorem submit_twice_counterexample:
  "getExamSession ''s1'' finishedDb = Some finishedSession
   \<and> es_status finishedSession = ''submitted''
   \<and> es_endTime finishedSession = Some 5000
   \<and> map es_endTime (examSessions (snd (submitRoute 9000 ''s1'' (Some [(''1'', ''B''), (''2'', ''C'')]) finishedDb)))
       = [Some 9000]
   \<and> map es_answers (examSessions (snd (submitRoute 9000 ''s1'' (Some [(''1'', ''D'')]) finishedDb)))
       = [Some [(''1'', ''D'')]]"
  by (simp add: submitRoute_def getExamSession_def updateExamSession_def applyUpdates_def
        finishedDb_def finishedSession_def)

text \<open>
  C3, amended: a second submission request for a session that is already
  \<^verbatim>\<open>submitted\<close> raises no error, returns the stored session and leaves its status
  \<^verbatim>\<open>submitted\<close>; it overwrites \<^verbatim>\<open>endTime\<close> with the time of the second request and
  the stored answers with the answers of the second request (which stay as they were
  only when the request carries none).
\<close>

theorem submit_twice_overwrites:
  assumes "getExamSession sid db = Some s" and "es_status s = ''submitted''"
  shows "fst (submitRoute now sid ans db) = Ok (getExamSession sid (snd (submitRoute now sid ans db)))
       \<and> (\<exists>s'. getExamSession sid (snd (submitRoute now sid ans db)) = Some s'
             \<and> es_status s' = ''submitted''
             \<and> es_endTime s' = Some now
             \<and> es_answers s' = (case ans of None \<Rightarrow> es_answers s | Some a \<Rightarrow> Some a))"
  using assms
  by (simp add: submitRoute_def Let_def getExamSession_update applyUpdates_def)

theorem submit_twice_overwrites_witness:
  "getExamSession ''s1'' finishedDb = Some finishedSession
   \<and> es_status finishedSession = ''submitted''
   \<and> fst (submitRoute 9000 ''s1'' None finishedDb)
       = Ok (getExamSession ''s1'' (snd (submitRoute 9000 ''s1'' None finishedDb)))
   \<and> (\<exists>s'. getExamSession ''s1'' (snd (submitRoute 9000 ''s1'' None finishedDb)) = Some s'
         \<and> es_status s' = ''submitted''
         \<and> es_endTime s' = Some 9000
         \<and> es_answers s' = es_answers finishedSession)"
proof -
  have g: "getExamSession ''s1'' finishedDb = Some finishedSession"
    by (simp add: getExamSession_def finishedDb_def finishedSession_def)
  have st: "es_status finishedSession = ''submitted''"
    by (simp add: finishedSession_def)
  show ?thesis
    using submit_twice_overwrites [OF g st, of 9000 None] g st by simp
qed

section \<open>Properties of incident creation\<close>

text \<open>
  On the WebSocket path the gate is effective: with three or more incidents of the same
  session and type created in the last 60 seconds, the handler returns early and the
  database stays as it was.
\<close>

lemma ws_gate_drops:
  "length (recentSameType now (str (vd_incidentType d))
             (getSecurityIncidents (str (vd_sessionId d)) db)) \<ge> 3
   \<Longrightarrow> handleViolation now newId ws d db
         \<in> {(InvalidViolationData, db), (UnauthorizedSender, db), (SessionNotFound, db),
            (RateLimited, db)}"
  by (simp add: handleViolation_def split: option.splits)

subsection \<open>The gate of the WebSocket path keeps the bound\<close>

lemma length_filter_orderByDesc:
  "length (filter P (orderByDesc key xs)) = length (filter P xs)"
proof -
  have "length (filter P (orderByDesc key xs))
          = length (filter P (filter (\<lambda>x. key x = None) xs))
            + length (filter P (filter (\<lambda>x. key x \<noteq> None) xs))"
    by (simp add: orderByDesc_def filter_sort flip: rev_filter)
  also have "\<dots> = length (filter (\<lambda>x. key x = None) (filter P xs))
                  + length (filter (\<lambda>x. \<not> key x = None) (filter P xs))"
    by (simp add: conj_commute)
  also have "\<dots> = length (filter P xs)"
    by (rule sum_length_filter_compl)
  finally show ?thesis .
qed

lemma length_filter_mono:
  "(\<And>x. x \<in> set xs \<Longrightarrow> P x \<Longrightarrow> Q x) \<Longrightarrow> length (filter P xs) \<le> length (filter Q xs)"
proof (induction xs)
  case Nil
  show ?case by simp
next
  case (Cons x xs)
  then have "length (filter P xs) \<le> length (filter Q xs)" by simp
  with Cons.prems [of x] show ?case by auto
qed

lemma gate_counts_window:
  assumes "\<forall>i \<in> set (securityIncidents db). \<exists>c. si_createdAt i = Some c \<and> c \<le> now"
  shows "length (recentSameType now ty (getSecurityIncidents sid db)) = windowCount now sid ty db"
proof -
  have "filter (\<lambda>i. si_incidentType i = ty
                  \<and> (case si_createdAt i of None \<Rightarrow> False | Some t \<Rightarrow> now - 60000 < t))
          (filter (\<lambda>i. si_sessionId i = sid) (securityIncidents db))
        = filter (\<lambda>i. si_sessionId i = sid \<and> si_incidentType i = ty
                     \<and> (case si_createdAt i of None \<Rightarrow> False | Some c \<Rightarrow> now - 60000 < c \<and> c \<le> now))
            (securityIncidents db)"
    using assms by (auto intro!: filter_cong split: option.splits)
  then show ?thesis
    by (simp add: recentSameType_def getSecurityIncidents_def windowCount_def
          length_filter_orderByDesc)
qed

lemma rateBounded_later:
  assumes "rateBounded now db" and "now \<le> now'"
  shows "rateBounded now' db"
  using assms unfolding rateBounded_def by (meson order_trans)

text \<open>
  Whatever violation message arrives, and whoever sends it, a database within the
  bound stays within it, as long as time does not run backwards.
\<close>

lemma ws_path_keeps_bound:
  assumes inv: "rateBounded now db" and later: "now \<le> now'"
  shows "rateBounded now' (snd (handleViolation now' newId ws d db))"
proof (cases "snd (handleViolation now' newId ws d db) = db")
  case True
  with rateBounded_later [OF inv later] show ?thesis by simp
next
  case False
  define sid where "sid = str (vd_sessionId d)"
  define ty where "ty = str (vd_incidentType d)"
  define row where "row = \<lparr>si_id = newId, si_sessionId = sid, si_incidentType = ty,
      si_severity = str (vd_severity d), si_description = str (vd_description d),
      si_metadata = Some (case vd_metadata d of None \<Rightarrow> [] | Some m \<Rightarrow> m),
      si_isResolved = False, si_createdAt = Some now'\<rparr>"
  from False have few: "length (recentSameType now' ty (getSecurityIncidents sid db)) < 3"
    and new: "snd (handleViolation now' newId ws d db)
                = db\<lparr>securityIncidents := securityIncidents db @ [row]\<rparr>"
    by (auto simp: handleViolation_def createSecurityIncident_def Let_def sid_def ty_def row_def
          split: option.splits if_splits)
  from rateBounded_later [OF inv later]
  have old: "\<forall>i \<in> set (securityIncidents db). \<exists>c. si_createdAt i = Some c \<and> c \<le> now'"
    and win: "\<And>t s y. windowCount t s y db \<le> 3"
    by (simp_all add: rateBounded_def)
  from few gate_counts_window [OF old] have few': "windowCount now' sid ty db \<le> 2"
    by simp
  have "windowCount t s y (db\<lparr>securityIncidents := securityIncidents db @ [row]\<rparr>) \<le> 3" for t s y
  proof (cases "s = sid \<and> y = ty \<and> now' \<le> t")
    case False
    then have "windowCount t s y (db\<lparr>securityIncidents := securityIncidents db @ [row]\<rparr>)
                 = windowCount t s y db"
      by (auto simp: windowCount_def row_def)
    with win show ?thesis by simp
  next
    case True
    have "windowCount t sid ty db \<le> windowCount now' sid ty db"
      unfolding windowCount_def
    proof (rule length_filter_mono)
      fix i assume "i \<in> set (securityIncidents db)"
        and "si_sessionId i = sid \<and> si_incidentType i = ty
             \<and> (case si_createdAt i of None \<Rightarrow> False | Some c \<Rightarrow> t - 60000 < c \<and> c \<le> t)"
      with old True
      show "si_sessionId i = sid \<and> si_incidentType i = ty
             \<and> (case si_createdAt i of None \<Rightarrow> False | Some c \<Rightarrow> now' - 60000 < c \<and> c \<le> now')"
        by (fastforce split: option.splits)
    qed
    moreover have "windowCount t sid ty (db\<lparr>securityIncidents := securityIncidents db @ [row]\<rparr>)
                     \<le> windowCount t sid ty db + 1"
      by (simp add: windowCount_def)
    ultimately show ?thesis using few' True by simp
  qed
  moreover have "\<forall>i \<in> set (securityIncidents db @ [row]). \<exists>c. si_createdAt i = Some c \<and> c \<le> now'"
    using old by (simp add: row_def)
  ultimately show ?thesis
    by (simp add: new rateBounded_def)
qed

text \<open>
  C1 fails on the HTTP path. Session \<open>s1\<close> has three \<^verbatim>\<open>looking_away\<close> incidents
  created at times 1000, 2000 and 3000. At time 4000 a fourth report of that type is
  dropped when it arrives as a WebSocket violation message, but
  \<^verbatim>\<open>POST /api/security-incidents\<close> persists it: four incidents of one session and one
  type then lie within the trailing 60 seconds.
\<close>

theorem http_incident_not_rate_limited:
  "length (recentSameType 4000 ''looking_away'' (getSecurityIncidents ''s1'' noisyDb)) = 3
   \<and> handleViolation 4000 ''i4'' studentSocket lookAwayMessage noisyDb = (RateLimited, noisyDb)
   \<and> fst (postSecurityIncident Some 4000 ''i4'' True lookAwayBody noisyDb) = Ok (lookAwayAt ''i4'' 4000)
   \<and> securityIncidents (snd (postSecurityIncident Some 4000 ''i4'' True lookAwayBody noisyDb))
       = [lookAwayAt ''i1'' 1000, lookAwayAt ''i2'' 2000, lookAwayAt ''i3'' 3000, lookAwayAt ''i4'' 4000]
   \<and> length (recentSameType 4000 ''looking_away''
         (getSecurityIncidents ''s1'' (snd (postSecurityIncident Some 4000 ''i4'' True lookAwayBody noisyDb)))) = 4"
  by (simp add: getSecurityIncidents_def orderByDesc_def noisyDb_def lookAwayAt_def
        recentSameType_def handleViolation_def postSecurityIncident_def createSecurityIncident_def
        getExamSession_def liveSession_def lookAwayMessage_def lookAwayBody_def studentSocket_def
        truthy_def str_def Let_def)

theorem http_incident_not_rate_limited_witness:
  "snd (handleViolation 4000 ''i4'' studentSocket lookAwayMessage noisyDb) = noisyDb
   \<and> length (securityIncidents noisyDb) = 3
   \<and> length (securityIncidents (snd (postSecurityIncident Some 4000 ''i4'' True lookAwayBody noisyDb))) = 4"
  using http_incident_not_rate_limited by (simp add: noisyDb_def)

section \<open>Properties of the session-questions route\<close>

lemma insort_key_map_inv:
  "(\<And>x. k (h x) = k x) \<Longrightarrow> insort_key k (h x) (map h ys) = map h (insort_key k x ys)"
  by (induction ys) auto

lemma sort_key_map_inv:
  "(\<And>x. k (h x) = k x) \<Longrightarrow> sort_key k (map h xs) = map h (sort_key k xs)"
  by (induction xs) (auto simp: insort_key_map_inv)

lemma orderByDesc_map_inv:
  assumes "\<And>x. key (h x) = key x"
  shows "orderByDesc key (map h xs) = map h (orderByDesc key xs)"
  using assms
  by (simp add: orderByDesc_def filter_map o_def rev_map sort_key_map_inv)

lemma studentView_erase: "studentView (eraseAnswer q) = studentView q"
  by (simp add: studentView_def eraseAnswer_def)

lemma q_id_erase: "q_id (eraseAnswer q) = q_id q"
  by (simp add: eraseAnswer_def)

lemma visible_erase:
  "map studentView (filter (\<lambda>q. q_id q \<in> set ids) (getAllQuestions db))
     = map studentView (filter (\<lambda>q. q_id q \<in> set ids)
         (orderByDesc q_createdAt (map eraseAnswer (questions db))))"
proof -
  have "orderByDesc q_createdAt (map eraseAnswer (questions db))
          = map eraseAnswer (orderByDesc q_createdAt (questions db))"
    by (rule orderByDesc_map_inv) (simp add: eraseAnswer_def)
  then show ?thesis
    by (simp add: getAllQuestions_def filter_map o_def studentView_erase q_id_erase)
qed

text \<open>
  C10: the response of the student-facing session-questions route is a list of objects
  with the five fields \<^verbatim>\<open>id\<close>, \<^verbatim>\<open>questionText\<close>, \<^verbatim>\<open>options\<close>,
  \<^verbatim>\<open>questionType\<close>, \<^verbatim>\<open>marks\<close> (the type \<open>StudentQuestion\<close>), and it does not
  depend on the correct answers: two databases with the same sessions whose question
  banks differ only in \<^verbatim>\<open>correctAnswer\<close> give the same response, error responses
  included.
\<close>

theorem session_questions_hide_correct_answer:
  assumes "examSessions db2 = examSessions db1"
    and "map eraseAnswer (questions db2) = map eraseAnswer (questions db1)"
  shows "getSessionQuestionsRoute sid db2 = getSessionQuestionsRoute sid db1"
  using assms
  by (simp add: getSessionQuestionsRoute_def getExamSession_def visible_erase
        split: option.splits)

theorem session_questions_hide_correct_answer_witness:
  "examSessions (bankDb ''C'' ''D'') = examSessions (bankDb ''B'' ''A'')
   \<and> map eraseAnswer (questions (bankDb ''C'' ''D'')) = map eraseAnswer (questions (bankDb ''B'' ''A''))
   \<and> questions (bankDb ''C'' ''D'') \<noteq> questions (bankDb ''B'' ''A'')
   \<and> getSessionQuestionsRoute ''s1'' (bankDb ''C'' ''D'') = getSessionQuestionsRoute ''s1'' (bankDb ''B'' ''A'')
   \<and> getSessionQuestionsRoute ''s1'' (bankDb ''B'' ''A'')
       = Ok [studentView (sampleQuestion ''q2'' ''A'' 20), studentView (sampleQuestion ''q1'' ''B'' 10)]"
proof -
  have s: "examSessions (bankDb ''C'' ''D'') = examSessions (bankDb ''B'' ''A'')"
    by (simp add: bankDb_def)
  have q: "map eraseAnswer (questions (bankDb ''C'' ''D'')) = map eraseAnswer (questions (bankDb ''B'' ''A''))"
    by (simp add: bankDb_def eraseAnswer_def sampleQuestion_def)
  have d: "questions (bankDb ''C'' ''D'') \<noteq> questions (bankDb ''B'' ''A'')"
    by (simp add: bankDb_def sampleQuestion_def)
  have r: "getSessionQuestionsRoute ''s1'' (bankDb ''B'' ''A'')
       = Ok [studentView (sampleQuestion ''q2'' ''A'' 20), studentView (sampleQuestion ''q1'' ''B'' 10)]"
    by (simp add: getSessionQuestionsRoute_def getExamSession_def bankDb_def liveSession_def
          getAllQuestions_def orderByDesc_def sampleQuestion_def)
  show ?thesis
    using session_questions_hide_correct_answer [OF s q, of "''s1''"] s q d r by simp
qed

section \<open>Properties of session creation\<close>

lemma orderByDesc_Nil: "orderByDesc key [] = []"
  by (simp add: orderByDesc_def)

text \<open>
  With an empty question bank no request of any shape adds a session: the route changes
  no table but \<^verbatim>\<open>users\<close>.
\<close>

lemma upsertUser_tables:
  assumes "upsertUser now userData db = Some (row, db')"
  shows "examSessions db' = examSessions db \<and> hallTickets db' = hallTickets db
       \<and> securityIncidents db' = securityIncidents db \<and> questions db' = questions db"
  using assms by (auto simp: upsertUser_def Let_def split: if_splits option.splits)

lemma no_questions_drawn:
  assumes "questions db1 = []"
  shows "getRandomQuestions rnd examName limit db1 = []" and "getAllQuestions db1 = []"
  using assms
  by (simp_all add: getRandomQuestions_def getAllQuestions_def orderByDesc_Nil)

lemma no_questions_no_session:
  assumes "questions db = []"
  shows "examSessions (snd (createSessionRoute valid rnd shuffle now newId body db)) = examSessions db
       \<and> hallTickets (snd (createSessionRoute valid rnd shuffle now newId body db)) = hallTickets db
       \<and> securityIncidents (snd (createSessionRoute valid rnd shuffle now newId body db))
           = securityIncidents db
       \<and> questions (snd (createSessionRoute valid rnd shuffle now newId body db)) = questions db"
proof (cases "getHallTicketById (rq_hallTicketId body) db")
  case None
  then show ?thesis by (simp add: createSessionRoute_def)
next
  case ticket: (Some hallTicket)
  show ?thesis
  proof (cases "getUser (studentIdOf hallTicket) db")
    case (Some studentUser)
    with ticket assms show ?thesis
      by (simp add: createSessionRoute_def Let_def no_questions_drawn split: option.splits)
  next
    case None
    show ?thesis
    proof (cases "upsertUser now (studentUserOf hallTicket) db")
      case no: None
      with ticket None show ?thesis
        by (simp add: createSessionRoute_def Let_def)
    next
      case (Some created)
      obtain row db1 where created: "created = (row, db1)"
        by (cases created)
      from Some created upsertUser_tables
      have tables: "examSessions db1 = examSessions db \<and> hallTickets db1 = hallTickets db
          \<and> securityIncidents db1 = securityIncidents db \<and> questions db1 = questions db"
        by blast
      with assms have "questions db1 = []" by simp
      with ticket None Some created tables show ?thesis
        by (simp add: createSessionRoute_def Let_def no_questions_drawn split: option.splits)
    qed
  qed
qed

text \<open>
  C9, as stated, fails in its last part: the failed request leaves state behind. The
  hall ticket \<open>h1\<close> is active, the question bank is empty and the student has no user
  record yet. The request fails with \<^verbatim>\<open>NO_QUESTIONS_IN_SYSTEM\<close>, but the user record
  of the student, written before the questions are looked up, stays in the database.
\<close>

theorem no_questions_leaves_user_counterexample:
  "questions emptyBankDb = []
   \<and> fst (createSessionRoute (\<lambda>_. True) (\<lambda>_. 0) (\<lambda>xs. xs) 500 ''e1'' startRequest emptyBankDb)
       = Failure 400 noQuestionsMessage (Some ''NO_QUESTIONS_IN_SYSTEM'')
   \<and> users emptyBankDb = []
   \<and> users (snd (createSessionRoute (\<lambda>_. True) (\<lambda>_. 0) (\<lambda>xs. xs) 500 ''e1'' startRequest emptyBankDb))
       = [\<lparr>u_id = ''student_42'', u_email = Some ''ada@example.org'', u_firstName = Some ''Ada'',
           u_lastName = Some ''Lovelace'', u_role = ''student'', u_updatedAt = Some 500\<rparr>]
   \<and> snd (createSessionRoute (\<lambda>_. True) (\<lambda>_. 0) (\<lambda>xs. xs) 500 ''e1'' startRequest emptyBankDb)
       \<noteq> emptyBankDb"
  by (simp add: createSessionRoute_def emptyBankDb_def emptyBankTicket_def startRequest_def
      getHallTicketById_def getUser_def upsertUser_def emailTaken_def studentUserOf_def
      studentIdOf_def sessionDataOf_def getExamSessionByStudent_def getRandomQuestions_def
      getAllQuestions_def orderByDesc_Nil Let_def)

text \<open>
  C9, amended: for every session-creation request that reaches the question lookup
  (the hall ticket exists and is active, the student's user record exists or can be
  created, the data passes validation, the student has no session for the hall ticket
  yet), if the question bank is empty then creation fails with status 400 and the error
  \<^verbatim>\<open>NO_QUESTIONS_IN_SYSTEM\<close>, whatever question count the hall ticket asks for; no
  session is created, and the only state the failed request leaves behind is the
  student's user record, appended to \<^verbatim>\<open>users\<close> when there was none.
\<close>

theorem no_questions_fails_without_session:
  assumes "questions db = []"
    and "getHallTicketById (rq_hallTicketId body) db = Some hallTicket"
    and "ht_isActive hallTicket"
    and "getUser (studentIdOf hallTicket) db \<noteq> None \<or> \<not> emailTaken (studentUserOf hallTicket) db"
    and "valid (sessionDataOf now (studentIdOf hallTicket) body)"
    and "getExamSessionByStudent (studentIdOf hallTicket) (rq_hallTicketId body) db = None"
  shows "fst (createSessionRoute valid rnd shuffle now newId body db)
           = Failure 400 noQuestionsMessage (Some ''NO_QUESTIONS_IN_SYSTEM'')
       \<and> examSessions (snd (createSessionRoute valid rnd shuffle now newId body db)) = examSessions db
       \<and> hallTickets (snd (createSessionRoute valid rnd shuffle now newId body db)) = hallTickets db
       \<and> securityIncidents (snd (createSessionRoute valid rnd shuffle now newId body db))
           = securityIncidents db
       \<and> questions (snd (createSessionRoute valid rnd shuffle now newId body db)) = questions db
       \<and> users (snd (createSessionRoute valid rnd shuffle now newId body db))
           = (if getUser (studentIdOf hallTicket) db = None
              then users db @ [(studentUserOf hallTicket)\<lparr>u_updatedAt := Some now\<rparr>]
              else users db)"
proof (cases "getUser (studentIdOf hallTicket) db")
  case None
  with assms show ?thesis
    by (simp add: createSessionRoute_def Let_def upsertUser_def getRandomQuestions_def
          getAllQuestions_def orderByDesc_Nil getExamSessionByStudent_def sessionDataOf_def
          studentUserOf_def)
next
  case (Some studentUser)
  with assms show ?thesis
    by (simp add: createSessionRoute_def Let_def getRandomQuestions_def
          getAllQuestions_def orderByDesc_Nil getExamSessionByStudent_def sessionDataOf_def)
qed

theorem no_questions_fails_without_session_witness:
  "questions emptyBankDb = []
   \<and> getHallTicketById (rq_hallTicketId startRequest) emptyBankDb = Some emptyBankTicket
   \<and> ht_isActive emptyBankTicket
   \<and> \<not> emailTaken (studentUserOf emptyBankTicket) emptyBankDb
   \<and> getExamSessionByStudent (studentIdOf emptyBankTicket) (rq_hallTicketId startRequest) emptyBankDb = None
   \<and> fst (createSessionRoute (\<lambda>_. True) (\<lambda>_. 0) (\<lambda>xs. xs) 500 ''e1'' startRequest emptyBankDb)
       = Failure 400 noQuestionsMessage (Some ''NO_QUESTIONS_IN_SYSTEM'')
   \<and> examSessions (snd (createSessionRoute (\<lambda>_. True) (\<lambda>_. 0) (\<lambda>xs. xs) 500 ''e1'' startRequest emptyBankDb)) = []
   \<and> users (snd (createSessionRoute (\<lambda>_. True) (\<lambda>_. 0) (\<lambda>xs. xs) 500 ''e1'' startRequest emptyBankDb))
       = [(studentUserOf emptyBankTicket)\<lparr>u_updatedAt := Some 500\<rparr>]"
proof -
  have a1: "questions emptyBankDb = []"
    by (simp add: emptyBankDb_def)
  have a2: "getHallTicketById (rq_hallTicketId startRequest) emptyBankDb = Some emptyBankTicket"
    by (simp add: getHallTicketById_def emptyBankDb_def emptyBankTicket_def startRequest_def)
  have a3: "ht_isActive emptyBankTicket"
    by (simp add: emptyBankTicket_def)
  have a4: "\<not> emailTaken (studentUserOf emptyBankTicket) emptyBankDb"
    by (simp add: emailTaken_def emptyBankDb_def)
  then have a4': "getUser (studentIdOf emptyBankTicket) emptyBankDb \<noteq> None
       \<or> \<not> emailTaken (studentUserOf emptyBankTicket) emptyBankDb" ..
  have a5: "(\<lambda>_. True) (sessionDataOf 500 (studentIdOf emptyBankTicket) startRequest)"
    by simp
  have a6: "getExamSessionByStudent (studentIdOf emptyBankTicket) (rq_hallTicketId startRequest)
              emptyBankDb = None"
    by (simp add: getExamSessionByStudent_def emptyBankDb_def)
  have u: "getUser (studentIdOf emptyBankTicket) emptyBankDb = None"
    by (simp add: getUser_def emptyBankDb_def)
  have e: "examSessions emptyBankDb = []" "users emptyBankDb = []"
    by (simp_all add: emptyBankDb_def)
  show ?thesis
    using no_questions_fails_without_session
            [where rnd = "\<lambda>_. 0" and shuffle = "\<lambda>xs. xs" and newId = "''e1''",
             OF a1 a2 a3 a4' a5 a6]
          a1 a2 a3 a4 a6 u e
    by simp
qed

text \<open>
  The same with a negative question count on the hall ticket: the query has no
  \<^verbatim>\<open>LIMIT\<close>, finds nothing in the empty bank, and the route answers 400 as before.
\<close>

lemma no_questions_negative_count:
  "fst (createSessionRoute (\<lambda>_. True) (\<lambda>_. 0) (\<lambda>xs. xs) 500 ''e1'' startRequest
          (emptyBankDb\<lparr>hallTickets := [emptyBankTicket\<lparr>ht_totalQuestions := - 5\<rparr>]\<rparr>))
     = Failure 400 noQuestionsMessage (Some ''NO_QUESTIONS_IN_SYSTEM'')"
  by (simp add: createSessionRoute_def emptyBankDb_def emptyBankTicket_def startRequest_def
      getHallTicketById_def getUser_def upsertUser_def emailTaken_def studentUserOf_def
      studentIdOf_def sessionDataOf_def getExamSessionByStudent_def getRandomQuestions_def
      getAllQuestions_def orderByDesc_Nil Let_def)

section \<open>Properties of the exam page\<close>

subsection \<open>What each handler does to the counters, the pause flag and the time budget\<close>

lemma emit_fields:
  "violationCount (emit es s) = violationCount s"
  "isPaused (emit es s) = isPaused s"
  "timeRemaining (emit es s) = timeRemaining s"
  "examSession (emit es s) = examSession s"
  "lookAwayCount (emit es s) = lookAwayCount s"
  "multipleFaceCount (emit es s) = multipleFaceCount s"
  "effects (emit es s) = effects s @ es"
  by (simp_all add: emit_def)

lemma submitExam_fields:
  "violationCount (submitExam s) = violationCount s"
  "isPaused (submitExam s) = isPaused s"
  "timeRemaining (submitExam s) = timeRemaining s"
  "examSession (submitExam s) = examSession s"
  by (simp_all add: submitExam_def emit_fields split: option.splits)

lemma submitExam_submissions:
  "submissions (submitExam s) = submissions s + (if examSession s = None then 0 else 1)"
  by (simp add: submitExam_def submissions_def emit_fields isSubmit_def split: option.splits)

lemma handleSecurityViolation_fields:
  "violationCount (handleSecurityViolation now vt d sv s)
     = violationCount s + (if examSession s = None then 0 else 1)"
  "isPaused (handleSecurityViolation now vt d sv s)
     = (isPaused s \<or> (examSession s \<noteq> None \<and> violationCount s = 0))"
  "timeRemaining (handleSecurityViolation now vt d sv s) = timeRemaining s"
  "examSession (handleSecurityViolation now vt d sv s) = examSession s"
  by (simp_all add: handleSecurityViolation_def Let_def emit_fields split: option.splits)

lemma handleBrowserEvent_fields:
  "violationCount (handleBrowserEvent now ev s)
     = violationCount s + (if violationOf ev \<noteq> None \<and> examSession s \<noteq> None then 1 else 0)"
  "isPaused (handleBrowserEvent now ev s)
     = (isPaused s \<or> (violationOf ev \<noteq> None \<and> examSession s \<noteq> None \<and> violationCount s = 0))"
  "timeRemaining (handleBrowserEvent now ev s) = timeRemaining s"
  by (auto simp: handleBrowserEvent_def Let_def emit_fields handleSecurityViolation_fields
        split: option.splits browserEvent.splits)

lemma classifySample_fields:
  "violationCount (classifySample now session f s) = violationCount s"
  "isPaused (classifySample now session f s) = isPaused s"
  "timeRemaining (classifySample now session f s) = timeRemaining s"
  by (simp_all add: classifySample_def Let_def emit_fields handleFaceViolation_def)

lemma faceMonitoring_fields:
  "violationCount (faceMonitoring now f s) = violationCount s"
  "isPaused (faceMonitoring now f s) = isPaused s"
  "timeRemaining (faceMonitoring now f s) = timeRemaining s"
  by (simp_all add: faceMonitoring_def handleMonitoring_def Let_def emit_fields classifySample_fields
        split: option.splits)

lemma timerTick_fields:
  "violationCount (timerTick s) = violationCount s"
  "isPaused (timerTick s) = isPaused s"
  "timeRemaining (timerTick s) \<le> timeRemaining s"
  by (simp_all add: timerTick_def submitExam_fields)

lemma resumeExam_fields:
  "violationCount (resumeExam s) = violationCount s"
  "\<not> isPaused (resumeExam s)"
  "timeRemaining (resumeExam s) = timeRemaining s"
  by (simp_all add: resumeExam_def emit_fields)

lemma fireTimeout_fields:
  "violationCount (fireTimeout a s) = violationCount s"
  "isPaused (fireTimeout a s) = isPaused s"
  "timeRemaining (fireTimeout a s) = timeRemaining s"
  by (simp_all add: fireTimeout_def emit_fields submitExam_fields split: timerAction.splits)

lemma onSessionCreated_fields:
  "violationCount (onSessionCreated session s) = violationCount s"
  "isPaused (onSessionCreated session s) = isPaused s"
  "timeRemaining (onSessionCreated session s)
     = (case es_timeRemaining session of None \<Rightarrow> 0 | Some t \<Rightarrow> t)"
  by (simp_all add: onSessionCreated_def emit_fields)

lemma step_timeRemaining:
  "\<not> isSessionCreated (snd te) \<Longrightarrow> timeRemaining (step te s) \<le> timeRemaining s"
  by (cases "snd te")
     (simp_all add: step_def isSessionCreated_def handleBrowserEvent_fields faceMonitoring_fields
        timerTick_fields resumeExam_fields submitExam_fields fireTimeout_fields)

lemma step_violationCount:
  "violationCount (step te s)
     = violationCount s + (if isBrowserViolation (snd te) \<and> examSession s \<noteq> None then 1 else 0)"
  by (cases "snd te")
     (simp_all add: step_def isBrowserViolation_def handleBrowserEvent_fields faceMonitoring_fields
        timerTick_fields resumeExam_fields submitExam_fields fireTimeout_fields
        onSessionCreated_fields)

lemma step_isPaused:
  "\<not> isPaused s \<Longrightarrow>
     isPaused (step te s)
       = (isBrowserViolation (snd te) \<and> examSession s \<noteq> None \<and> violationCount s = 0)"
  by (cases "snd te")
     (simp_all add: step_def isBrowserViolation_def handleBrowserEvent_fields faceMonitoring_fields
        timerTick_fields resumeExam_fields submitExam_fields fireTimeout_fields
        onSessionCreated_fields)

lemma timerTick_pause_blind: "timerTick (s\<lparr>isPaused := p\<rparr>) = (timerTick s)\<lparr>isPaused := p\<rparr>"
  by (simp add: timerTick_def submitExam_def emit_def split: option.splits)

lemma timerTick_submissions:
  "submissions (timerTick s)
     = submissions s + (if 0 < timeRemaining s \<and> timeRemaining (timerTick s) = 0 then 1 else 0)"
  by (auto simp: timerTick_def submitExam_def emit_def submissions_def isSubmit_def
        split: option.splits)

lemma timerTick_at_zero: "timeRemaining s \<le> 0 \<Longrightarrow> timerTick s = s"
  by (simp add: timerTick_def)

lemma timerTick_timeRemaining:
  "timeRemaining (timerTick s)
     = (if 0 < timeRemaining s \<and> examSession s \<noteq> None \<and> questionsLoaded s
        then timeRemaining s - 1 else timeRemaining s)"
  by (simp add: timerTick_def)

subsection \<open>The countdown\<close>

text \<open>From a positive budget, with session and questions present, the countdown reaches 0.\<close>

lemma timerTick_running:
  assumes "examSession t = Some session" and "questionsLoaded t" and "0 < timeRemaining t"
  shows "timeRemaining (timerTick t) = timeRemaining t - 1
       \<and> examSession (timerTick t) = Some session
       \<and> questionsLoaded (timerTick t)
       \<and> submissions (timerTick t) = submissions t + (if timeRemaining t = 1 then 1 else 0)"
  using assms
  by (auto simp: timerTick_def submitExam_def emit_def submissions_def isSubmit_def)

lemma ticks_closed_form:
  assumes "examSession s = Some session" and "questionsLoaded s" and "int k \<le> timeRemaining s"
    and "0 < timeRemaining s"
  shows "timeRemaining ((timerTick ^^ k) s) = timeRemaining s - int k
       \<and> examSession ((timerTick ^^ k) s) = Some session
       \<and> questionsLoaded ((timerTick ^^ k) s)
       \<and> submissions ((timerTick ^^ k) s)
           = submissions s + (if int k = timeRemaining s then 1 else 0)"
  using assms
proof (induction k)
  case 0
  then show ?case by simp
next
  case (Suc k)
  define t where "t = (timerTick ^^ k) s"
  from Suc have ih: "timeRemaining t = timeRemaining s - int k"
    "examSession t = Some session" "questionsLoaded t" "submissions t = submissions s"
    by (simp_all add: t_def)
  from Suc.prems ih have pos: "0 < timeRemaining t" by simp
  have "(timerTick ^^ Suc k) s = timerTick t"
    by (simp add: t_def)
  with timerTick_running [OF ih(2) ih(3) pos] ih show ?case
    by auto
qed

lemma countdown_reaches_zero:
  assumes "examSession s = Some session" and "questionsLoaded s" and "0 < timeRemaining s"
  shows "timeRemaining ((timerTick ^^ nat (timeRemaining s)) s) = 0
       \<and> submissions ((timerTick ^^ nat (timeRemaining s)) s) = submissions s + 1"
  using ticks_closed_form [OF assms(1) assms(2), of "nat (timeRemaining s)"] assms(3)
  by simp

text \<open>
  C2, as stated, fails in its middle part: the countdown does not stop while the exam
  is paused. The first browser violation (the window loses focus, at time 1000) pauses
  the exam with 3600 seconds left; the next firing of the countdown interval takes a
  second off all the same.
\<close>

theorem countdown_runs_while_paused_counterexample:
  "isPaused (run [(1000, Browser WindowBlur)] examState)
   \<and> timeRemaining (run [(1000, Browser WindowBlur)] examState) = 3600
   \<and> isPaused (run [(1000, Browser WindowBlur), (2000, Tick)] examState)
   \<and> timeRemaining (run [(1000, Browser WindowBlur), (2000, Tick)] examState) = 3599"
  by (simp add: run_def step_def handleBrowserEvent_fields timerTick_fields violationOf_def
        examState_def timerTick_def handleBrowserEvent_def handleSecurityViolation_def emit_def
        Let_def)

text \<open>
  C2, amended: once the page holds its session (the success handler of the session
  request, which runs once when the page is mounted, sets \<^verbatim>\<open>timeRemaining\<close> to the
  budget of the session), \<^verbatim>\<open>timeRemaining\<close> is non-increasing under every event of
  the page, in progress and paused alike. It is not frozen while the exam is paused:
  the countdown does not look at the pause flag, and every firing of it with a session,
  loaded questions and a positive \<^verbatim>\<open>timeRemaining\<close> takes exactly one second off,
  paused or not. A firing of the countdown triggers one submission exactly when it
  takes the time from a positive value to 0, and once the time is 0 the countdown does
  nothing more.
\<close>

theorem countdown_monotone_one_submission:
  "(\<not> isSessionCreated (snd te) \<longrightarrow> timeRemaining (step te s) \<le> timeRemaining s)
   \<and> timeRemaining (step (t, SessionCreated session) s)
       = (case es_timeRemaining session of None \<Rightarrow> 0 | Some budget \<Rightarrow> budget)
   \<and> timerTick (s\<lparr>isPaused := p\<rparr>) = (timerTick s)\<lparr>isPaused := p\<rparr>
   \<and> timeRemaining (step (t, Tick) (s\<lparr>isPaused := p\<rparr>))
       = (if 0 < timeRemaining s \<and> examSession s \<noteq> None \<and> questionsLoaded s
          then timeRemaining s - 1 else timeRemaining s)
   \<and> submissions (timerTick s)
       = submissions s + (if 0 < timeRemaining s \<and> timeRemaining (timerTick s) = 0 then 1 else 0)
   \<and> timerTick (s\<lparr>timeRemaining := 0\<rparr>) = s\<lparr>timeRemaining := 0\<rparr>"
proof -
  have "timeRemaining (step (t, Tick) (s\<lparr>isPaused := p\<rparr>))
       = (if 0 < timeRemaining s \<and> examSession s \<noteq> None \<and> questionsLoaded s
          then timeRemaining s - 1 else timeRemaining s)"
    by (simp add: step_def timerTick_timeRemaining)
  moreover have "timeRemaining (step (t, SessionCreated session) s)
       = (case es_timeRemaining session of None \<Rightarrow> 0 | Some budget \<Rightarrow> budget)"
    by (simp add: step_def onSessionCreated_fields)
  ultimately show ?thesis
    by (simp add: step_timeRemaining timerTick_pause_blind timerTick_submissions timerTick_at_zero)
qed

theorem countdown_monotone_one_submission_witness:
  "\<not> isSessionCreated Tick
   \<and> timeRemaining (examState\<lparr>isPaused := True\<rparr>) = 3600
   \<and> timeRemaining (step (2000, Tick) (examState\<lparr>isPaused := True\<rparr>)) = 3599
   \<and> timeRemaining (step (3000, Tick) (step (2000, Tick) (examState\<lparr>isPaused := True\<rparr>))) = 3598
   \<and> timeRemaining (timerTick (examState\<lparr>timeRemaining := 1\<rparr>)) = 0
   \<and> submissions (timerTick (examState\<lparr>timeRemaining := 1\<rparr>)) = 1
   \<and> timeRemaining (step (0, SessionCreated liveSession) (examState\<lparr>examSession := None, timeRemaining := 0\<rparr>))
       = 3600"
proof -
  let ?s1 = "timerTick examState"
  have e: "0 < timeRemaining examState" "examSession examState \<noteq> None" "questionsLoaded examState"
    "timeRemaining examState = 3600"
    by (simp_all add: examState_def)
  have e1: "timeRemaining ?s1 = 3599" "examSession ?s1 \<noteq> None" "questionsLoaded ?s1"
    by (simp_all add: timerTick_def examState_def)
  have z: "timeRemaining (timerTick (examState\<lparr>timeRemaining := 1\<rparr>)) = 0"
    by (simp add: timerTick_def examState_def)
  have n: "submissions (examState\<lparr>timeRemaining := 1\<rparr>) = 0"
    by (simp add: submissions_def examState_def)
  have c: "\<not> isSessionCreated Tick"
    by (simp add: isSessionCreated_def)
  have b: "es_timeRemaining liveSession = Some 3600"
    by (simp add: liveSession_def)
  have t2: "step (2000, Tick) (examState\<lparr>isPaused := True\<rparr>) = ?s1\<lparr>isPaused := True\<rparr>"
    by (simp add: step_def timerTick_pause_blind)
  show ?thesis
    using countdown_monotone_one_submission [of "(2000, Tick)" examState 2000 liveSession True]
      countdown_monotone_one_submission [of "(3000, Tick)" ?s1 3000 liveSession True]
      countdown_monotone_one_submission
        [of "(2000, Tick)" "examState\<lparr>timeRemaining := 1\<rparr>" 0 liveSession True]
      countdown_monotone_one_submission
        [of "(2000, Tick)" "examState\<lparr>examSession := None, timeRemaining := 0\<rparr>" 0 liveSession True]
      e e1 z n c b t2
    by simp
qed

subsection \<open>Pause and automatic submission\<close>

text \<open>
  C4: the browser-event violation counter goes up by one on every browser violation
  of a page with a session and on nothing else, and an exam that is not paused becomes
  paused by an event exactly when that event takes the counter from 0 to 1. So the
  first browser violation pauses, and no second or later one does.
\<close>

theorem pause_exactly_on_first_violation:
  assumes "\<not> isPaused s"
  shows "violationCount (step te s)
           = violationCount s
             + (if isBrowserViolation (snd te) \<and> examSession s \<noteq> None then 1 else 0)
       \<and> (isPaused (step te s) \<longleftrightarrow> violationCount s = 0 \<and> violationCount (step te s) = 1)"
  using assms by (auto simp: step_violationCount step_isPaused)

theorem pause_exactly_on_first_violation_witness:
  "\<not> isPaused examState
   \<and> violationCount examState = 0
   \<and> violationCount (step (1000, Browser WindowBlur) examState) = 1
   \<and> isPaused (step (1000, Browser WindowBlur) examState)
   \<and> \<not> isPaused (examState\<lparr>violationCount := 1\<rparr>)
   \<and> violationCount (step (5000, Browser (VisibilityChange True)) (examState\<lparr>violationCount := 1\<rparr>)) = 2
   \<and> \<not> isPaused (step (5000, Browser (VisibilityChange True)) (examState\<lparr>violationCount := 1\<rparr>))"
proof -
  have p: "\<not> isPaused examState" "\<not> isPaused (examState\<lparr>violationCount := 1\<rparr>)"
    by (simp_all add: examState_def)
  have v: "violationCount examState = 0" "examSession examState \<noteq> None"
    by (simp_all add: examState_def)
  have b: "isBrowserViolation (Browser WindowBlur)" "isBrowserViolation (Browser (VisibilityChange True))"
    by (simp_all add: isBrowserViolation_def violationOf_def)
  show ?thesis
    using pause_exactly_on_first_violation [OF p(1), of "(1000, Browser WindowBlur)"]
      pause_exactly_on_first_violation [OF p(2), of "(5000, Browser (VisibilityChange True))"]
      p v b
    by simp
qed

lemma newEffects_append: "effects s' = effects s @ es \<Longrightarrow> newEffects s s' = es"
  by (simp add: newEffects_def)

lemma handleSecurityViolation_third:
  assumes "examSession s = Some session" and "2 \<le> violationCount s"
  shows "\<exists>d. effects (handleSecurityViolation now violationType description severity s)
           = effects s
             @ [SetTimeout HideWarning 5000,
                SendMessage (ViolationMessage ''security_violation'' d),
                Toast ''Exam Auto-Submitted'',
                SendMessage (PolicyUpdate
                  (policyMessage now session s ''auto_submitted'' violationType (violationCount s + 1))),
                SetTimeout AutoSubmit 2000]"
  using assms
  by (simp add: handleSecurityViolation_def Let_def emit_def)

lemma policyMessage_fullscreen:
  "policyMessage now session (s\<lparr>isFullscreen := b\<rparr>) = policyMessage now session s"
  by (simp add: policyMessage_def fun_eq_iff)

lemma handleBrowserEvent_third:
  assumes "examSession s = Some session"
    and "violationOf ev = Some (violationType, description, severity)"
    and "2 \<le> violationCount s"
  shows "filter isPolicyEffect (newEffects s (handleBrowserEvent now ev s))
           = [SendMessage (PolicyUpdate
                (policyMessage now session s ''auto_submitted'' violationType (violationCount s + 1))),
              SetTimeout AutoSubmit 2000]"
proof (cases "\<exists>b. ev = FullscreenChange b")
  case True
  then obtain b where ev: "ev = FullscreenChange b" by blast
  define s0 where "s0 = s\<lparr>isFullscreen := b\<rparr>"
  have s0: "examSession s0 = Some session" "2 \<le> violationCount s0" "effects s0 = effects s"
    "violationCount s0 = violationCount s"
    using assms by (simp_all add: s0_def)
  from handleSecurityViolation_third [OF s0(1) s0(2), of now violationType description severity]
  obtain d where "effects (handleSecurityViolation now violationType description severity s0)
           = effects s
             @ [SetTimeout HideWarning 5000,
                SendMessage (ViolationMessage ''security_violation'' d),
                Toast ''Exam Auto-Submitted'',
                SendMessage (PolicyUpdate
                  (policyMessage now session s ''auto_submitted'' violationType (violationCount s + 1))),
                SetTimeout AutoSubmit 2000]"
    by (auto simp: s0 s0_def policyMessage_fullscreen)
  then have "effects (handleBrowserEvent now ev s)
           = effects s
             @ [SetTimeout HideWarning 5000,
                SendMessage (ViolationMessage ''security_violation'' d),
                Toast ''Exam Auto-Submitted'',
                SendMessage (PolicyUpdate
                  (policyMessage now session s ''auto_submitted'' violationType (violationCount s + 1))),
                SetTimeout AutoSubmit 2000,
                SetTimeout ReenterFullscreen 1000]"
    using assms ev by (simp add: handleBrowserEvent_def Let_def emit_def s0_def)
  then show ?thesis
    by (simp add: newEffects_def isPolicyEffect_def)
next
  case False
  from handleSecurityViolation_third [OF assms(1) assms(3), of now violationType description severity]
  obtain d where "effects (handleSecurityViolation now violationType description severity s)
           = effects s
             @ [SetTimeout HideWarning 5000,
                SendMessage (ViolationMessage ''security_violation'' d),
                Toast ''Exam Auto-Submitted'',
                SendMessage (PolicyUpdate
                  (policyMessage now session s ''auto_submitted'' violationType (violationCount s + 1))),
                SetTimeout AutoSubmit 2000]"
    by blast
  moreover from False assms have "handleBrowserEvent now ev s
      = handleSecurityViolation now violationType description severity s"
    by (cases ev) (simp_all add: handleBrowserEvent_def Let_def)
  ultimately show ?thesis
    by (simp add: newEffects_def isPolicyEffect_def)
qed

lemma auto_submit_fires:
  assumes "examSession s = Some session"
  shows "newEffects s (fireTimeout AutoSubmit s) = [PostSubmit (es_id session) (answers s)]"
  using assms by (simp add: fireTimeout_def submitExam_def emit_def newEffects_def)

text \<open>
  C5: when a browser violation takes the counter to 3 (or beyond), whatever its kind
  and whatever the face counters and the earlier effects of the page are, the handler
  announces \<^verbatim>\<open>auto_submitted\<close> and arms a timer of 2000 ms; when that timer runs out
  on a page that still has the session, the exam is submitted with the answers of that
  moment; and the submit route stores the status \<^verbatim>\<open>submitted\<close> for a session that
  exists.
\<close>

theorem third_violation_auto_submits:
  assumes "examSession s = Some session"
    and "violationOf ev = Some (violationType, description, severity)"
    and "2 \<le> violationCount s"
    and "getExamSession (es_id session) db = Some stored"
  shows "violationCount (step (now, Browser ev) s) = violationCount s + 1
       \<and> filter isPolicyEffect (newEffects s (step (now, Browser ev) s))
           = [SendMessage (PolicyUpdate
                (policyMessage now session s ''auto_submitted'' violationType (violationCount s + 1))),
              SetTimeout AutoSubmit 2000]
       \<and> (\<forall>later s'. examSession s' = Some session \<longrightarrow>
             newEffects s' (step (later, Timeout AutoSubmit) s')
               = [PostSubmit (es_id session) (answers s')])
       \<and> (\<forall>received a. \<exists>s'.
             getExamSession (es_id session) (snd (submitRoute received (es_id session) a db)) = Some s'
             \<and> es_status s' = ''submitted'')"
proof -
  have "violationCount (step (now, Browser ev) s) = violationCount s + 1"
    using assms by (simp add: step_def handleBrowserEvent_fields)
  moreover have "filter isPolicyEffect (newEffects s (step (now, Browser ev) s))
           = [SendMessage (PolicyUpdate
                (policyMessage now session s ''auto_submitted'' violationType (violationCount s + 1))),
              SetTimeout AutoSubmit 2000]"
    using handleBrowserEvent_third [OF assms(1) assms(2) assms(3)] by (simp add: step_def)
  moreover have "\<forall>later s'. examSession s' = Some session \<longrightarrow>
             newEffects s' (step (later, Timeout AutoSubmit) s')
               = [PostSubmit (es_id session) (answers s')]"
    by (simp add: step_def auto_submit_fires)
  moreover have "\<forall>received a. \<exists>s'.
             getExamSession (es_id session) (snd (submitRoute received (es_id session) a db)) = Some s'
             \<and> es_status s' = ''submitted''"
    using assms(4) by (simp add: submitRoute_def Let_def getExamSession_update applyUpdates_def)
  ultimately show ?thesis by blast
qed

theorem third_violation_auto_submits_witness:
  "examSession (examState\<lparr>violationCount := 2, lookAwayCount := 7\<rparr>) = Some liveSession
   \<and> violationOf (KeyDown \<lparr>ke_key = ''F12'', ke_keyCode = 123, ke_ctrlKey = False,
                           ke_altKey = False, ke_shiftKey = False\<rparr>)
       = Some (''key_violation'', ''Student attempted to use blocked key: F12'', ''medium'')
   \<and> getExamSession (es_id liveSession) noisyDb = Some liveSession
   \<and> violationCount (step (9000, Browser (KeyDown \<lparr>ke_key = ''F12'', ke_keyCode = 123,
         ke_ctrlKey = False, ke_altKey = False, ke_shiftKey = False\<rparr>))
         (examState\<lparr>violationCount := 2, lookAwayCount := 7\<rparr>)) = 3
   \<and> filter isPolicyEffect (newEffects (examState\<lparr>violationCount := 2, lookAwayCount := 7\<rparr>)
         (step (9000, Browser (KeyDown \<lparr>ke_key = ''F12'', ke_keyCode = 123,
            ke_ctrlKey = False, ke_altKey = False, ke_shiftKey = False\<rparr>))
            (examState\<lparr>violationCount := 2, lookAwayCount := 7\<rparr>)))
       = [SendMessage (PolicyUpdate
            (policyMessage 9000 liveSession (examState\<lparr>violationCount := 2, lookAwayCount := 7\<rparr>)
               ''auto_submitted'' ''key_violation'' 3)),
          SetTimeout AutoSubmit 2000]
   \<and> newEffects examState (step (11000, Timeout AutoSubmit) examState) = [PostSubmit ''s1'' []]"
proof -
  let ?s = "examState\<lparr>violationCount := 2, lookAwayCount := 7\<rparr>"
  let ?k = "\<lparr>ke_key = ''F12'', ke_keyCode = 123, ke_ctrlKey = False, ke_altKey = False,
             ke_shiftKey = False\<rparr>"
  have a1: "examSession ?s = Some liveSession"
    by (simp add: examState_def)
  have a2: "violationOf (KeyDown ?k)
       = Some (''key_violation'', ''Student attempted to use blocked key: F12'', ''medium'')"
    by (simp add: violationOf_def isEscape_def combo_def blockedKeys_def)
  have a3: "2 \<le> violationCount ?s"
    by (simp add: examState_def)
  have a4: "getExamSession (es_id liveSession) noisyDb = Some liveSession"
    by (simp add: getExamSession_def noisyDb_def)
  have v: "violationCount ?s = 2" "examSession examState = Some liveSession"
    "es_id liveSession = ''s1''" "answers examState = []"
    by (simp_all add: examState_def liveSession_def)
  show ?thesis
    using third_violation_auto_submits [OF a1 a2 a3 a4, of 9000] a1 a2 a4 v
    by simp
qed

subsection \<open>Face samples\<close>

lemma violationEvents_append:
  "violationEvents (xs @ ys) = violationEvents xs @ violationEvents ys"
  by (induction xs rule: violationEvents.induct) simp_all

lemma classifySample_multiple:
  assumes "multipleFaces f"
  shows "multipleFaceCount (classifySample now session f s) = multipleFaceCount s + 1
       \<and> lookAwayCount (classifySample now session f s) = lookAwayCount s
       \<and> (\<exists>d. effects (classifySample now session f s)
                 = effects s @ [SendMessage (ViolationMessage ''face_violation'' d)]
              \<and> vd_sessionId d = Some (es_id session)
              \<and> vd_incidentType d = Some ''multiple_faces''
              \<and> vd_severity d = Some ''critical'')"
  using assms
  by (simp add: classifySample_def Let_def handleFaceViolation_def emit_def)



lemma handleMonitoring_effects:
  "newEffects s (handleMonitoring now session f s)
     = newEffects s (classifySample now session f s)
       @ (if faceDetected f \<and> now - lastSnapshotTime s > 10000
          then [SendMessage (StudentStatus
                  \<lparr>sd_sessionId = es_id session, sd_studentId = es_studentId session,
                   sd_timestamp = now, sd_sample = f,
                   sd_violationCount = violationCount s, sd_lookAwayCount = lookAwayCount s\<rparr>)]
          else [])"
  by (simp add: handleMonitoring_def Let_def emit_def newEffects_def classifySample_def
        handleFaceViolation_def)

lemma handleMonitoring_counts:
  "lookAwayCount (handleMonitoring now session f s) = lookAwayCount (classifySample now session f s)"
  "multipleFaceCount (handleMonitoring now session f s)
     = multipleFaceCount (classifySample now session f s)"
  "showWarning (handleMonitoring now session f s) = showWarning (classifySample now session f s)"
  "warningMessage (handleMonitoring now session f s)
     = warningMessage (classifySample now session f s)"
  by (simp_all add: handleMonitoring_def Let_def emit_def)

lemma handleMonitoring_events:
  "violationEvents (newEffects s (handleMonitoring now session f s))
     = violationEvents (newEffects s (classifySample now session f s))"
  by (simp add: handleMonitoring_effects violationEvents_append)

text \<open>
  C7: on every run of the monitoring effect on a face sample with \<^verbatim>\<open>multipleFaces\<close>
  set, with a session and an active camera, whatever the counters and the history of
  the page, the classifier increments \<^verbatim>\<open>multipleFaceCount\<close> and sends one violation,
  of type \<^verbatim>\<open>multiple_faces\<close> and severity \<^verbatim>\<open>critical\<close>, as the first effect of that
  run. (A held sample is run on again and reported again; nothing is suppressed.)
\<close>

theorem multiple_faces_always_reported:
  assumes "examSession s = Some session" and "cameraActive s" and "multipleFaces f"
  shows "multipleFaceCount (step (now, Face f) s) = multipleFaceCount s + 1
       \<and> violationEvents (newEffects s (step (now, Face f) s)) = [(''multiple_faces'', ''critical'')]
       \<and> (\<exists>d. take 1 (newEffects s (step (now, Face f) s))
                 = [SendMessage (ViolationMessage ''face_violation'' d)]
              \<and> vd_sessionId d = Some (es_id session)
              \<and> vd_incidentType d = Some ''multiple_faces''
              \<and> vd_severity d = Some ''critical'')"
proof -
  have st: "step (now, Face f) s = handleMonitoring now session f s"
    using assms by (simp add: step_def faceMonitoring_def)
  from classifySample_multiple [OF assms(3), of now session s]
  obtain d where d: "effects (classifySample now session f s)
                 = effects s @ [SendMessage (ViolationMessage ''face_violation'' d)]"
      "vd_sessionId d = Some (es_id session)"
      "vd_incidentType d = Some ''multiple_faces''"
      "vd_severity d = Some ''critical''"
      and c: "multipleFaceCount (classifySample now session f s) = multipleFaceCount s + 1"
    by blast
  from d(1) have n: "newEffects s (classifySample now session f s)
      = [SendMessage (ViolationMessage ''face_violation'' d)]"
    by (rule newEffects_append)
  have "multipleFaceCount (step (now, Face f) s) = multipleFaceCount s + 1"
    by (simp add: st handleMonitoring_counts c)
  moreover have "violationEvents (newEffects s (step (now, Face f) s)) = [(''multiple_faces'', ''critical'')]"
    by (simp add: st handleMonitoring_events n d str_def)
  moreover have "take 1 (newEffects s (step (now, Face f) s))
                 = [SendMessage (ViolationMessage ''face_violation'' d)]"
    by (simp add: st handleMonitoring_effects n)
  ultimately show ?thesis using d by blast
qed

theorem multiple_faces_always_reported_witness:
  "examSession (examState\<lparr>multipleFaceCount := 5\<rparr>) = Some liveSession
   \<and> cameraActive (examState\<lparr>multipleFaceCount := 5\<rparr>)
   \<and> multipleFaces crowded
   \<and> multipleFaceCount (step (4000, Face crowded) (examState\<lparr>multipleFaceCount := 5\<rparr>)) = 6
   \<and> violationEvents (newEffects (examState\<lparr>multipleFaceCount := 5\<rparr>)
        (step (4000, Face crowded) (examState\<lparr>multipleFaceCount := 5\<rparr>)))
       = [(''multiple_faces'', ''critical'')]"
proof -
  have a: "examSession (examState\<lparr>multipleFaceCount := 5\<rparr>) = Some liveSession"
    "cameraActive (examState\<lparr>multipleFaceCount := 5\<rparr>)" "multipleFaces crowded"
    by (simp_all add: examState_def crowded_def)
  show ?thesis
    using multiple_faces_always_reported [OF a, of 4000] a by simp
qed


lemma holdSample_is_run:
  "\<exists>k \<le> length renders. holdSample renders f s = run (map (\<lambda>t. (t, Face f)) (take k renders)) s"
proof (induction renders arbitrary: s)
  case Nil
  show ?case by (simp add: run_def)
next
  case (Cons now later)
  show ?case
  proof (cases "monitorDeps (faceMonitoring now f s) = monitorDeps s")
    case True
    then have "holdSample (now # later) f s
                 = run (map (\<lambda>t. (t, Face f)) (take 1 (now # later))) s"
      by (simp add: run_def step_def)
    then show ?thesis
      by (intro exI [of _ 1]) simp
  next
    case False
    from Cons.IH [of "faceMonitoring now f s"]
    obtain k where k: "k \<le> length later"
      "holdSample later f (faceMonitoring now f s)
         = run (map (\<lambda>t. (t, Face f)) (take k later)) (faceMonitoring now f s)"
      by blast
    with False have "holdSample (now # later) f s
                 = run (map (\<lambda>t. (t, Face f)) (take (Suc k) (now # later))) s"
      by (simp add: run_def step_def)
    with k(1) show ?thesis
      by (intro exI [of _ "Suc k"]) simp
  qed
qed






text \<open>
  The scripted stream of the specification, as runs of the effect: one run on a
  baseline sample with a face detected, then four runs on a looking-away sample. The
  first of the four gives the local warning only, the second nothing, the third the
  \<^verbatim>\<open>high\<close> event, the fourth the \<^verbatim>\<open>medium\<close> event.
\<close>

lemma scripted_streak:
  "map (\<lambda>n. violationEvents (effects (run (take n
          [(1000, Face attentive), (2000, Face away), (3000, Face away), (4000, Face away),
           (5000, Face away)]) examState))) [1, 2, 3, 4, 5]
     = [[], [], [],
        [(''looking_away_repeated'', ''high'')],
        [(''looking_away_repeated'', ''high''), (''looking_away'', ''medium'')]]"
  by (simp add: run_def step_def faceMonitoring_def classifySample_def
        handleMonitoring_def handleFaceViolation_def emit_def Let_def str_def
        examState_def away_def attentive_def)

lemma faceMonitoring_policy:
  "filter isPolicyEffect (effects (faceMonitoring now f s)) = filter isPolicyEffect (effects s)"
  by (simp add: faceMonitoring_def handleMonitoring_def classifySample_def handleFaceViolation_def
        emit_def Let_def isPolicyEffect_def split: option.splits)

text \<open>
  C8: a sequence of runs of the monitoring effect, of any length and on samples of any
  content (the repeated runs on a held sample included), leaves the browser-event
  violation counter and the pause flag as they were, and adds no policy effect: no
  \<^verbatim>\<open>policy_update\<close> message, no armed auto-submit timer, no submit request.
\<close>

theorem face_samples_never_pause_or_submit:
  "violationCount (run (map (\<lambda>(t, f). (t, Face f)) samples) s) = violationCount s
   \<and> isPaused (run (map (\<lambda>(t, f). (t, Face f)) samples) s) = isPaused s
   \<and> filter isPolicyEffect (effects (run (map (\<lambda>(t, f). (t, Face f)) samples) s))
       = filter isPolicyEffect (effects s)"
proof (induction samples arbitrary: s)
  case Nil
  show ?case by (simp add: run_def)
next
  case (Cons x samples)
  obtain t f where x: "x = (t, f)" by (cases x)
  have "run (map (\<lambda>(t, f). (t, Face f)) (x # samples)) s
          = run (map (\<lambda>(t, f). (t, Face f)) samples) (faceMonitoring t f s)"
    by (simp add: run_def step_def x)
  with Cons.IH [of "faceMonitoring t f s"] show ?case
    by (simp add: faceMonitoring_fields faceMonitoring_policy)
qed

theorem face_samples_never_pause_or_submit_witness:
  "violationCount (run (map (\<lambda>(t, f). (t, Face f))
       [(1000, crowded), (2000, away), (3000, away), (4000, away), (5000, away), (6000, crowded)])
       examState) = 0
   \<and> \<not> isPaused (run (map (\<lambda>(t, f). (t, Face f))
       [(1000, crowded), (2000, away), (3000, away), (4000, away), (5000, away), (6000, crowded)])
       examState)
   \<and> filter isPolicyEffect (effects (run (map (\<lambda>(t, f). (t, Face f))
       [(1000, crowded), (2000, away), (3000, away), (4000, away), (5000, away), (6000, crowded)])
       examState)) = []"
  using face_samples_never_pause_or_submit
          [of "[(1000, crowded), (2000, away), (3000, away), (4000, away), (5000, away), (6000, crowded)]"
              examState]
  by (simp add: examState_def)

end
